theory Spec2Isabelle
  imports Complex_Main "HOL-Library.AList"
begin

section \<open>Python values and exceptions\<close>

text \<open>
  Every \<^verbatim>\<open>raise\<close> of the two source files, and every exception the interpreter
  raises on their behalf, is a value of \<open>error\<close>. A \<^verbatim>\<open>ValueError\<close> carries its message,
  because the sources tell their failures apart by it.
\<close>

datatype error =
    ValueError string
  | NotImplementedError
  | UnboundLocalError string
  | AttributeError string
  | ZeroDivisionError
  | OverflowError
  | TypeError
  | RuntimeError
  | AssertionError
  | NameError string
  | IndexError

text \<open>
  A Python float is a finite number, an infinity or a NaN. Only comparison with \<open>1.0\<close> and
  conversion to \<^verbatim>\<open>int\<close> are used by the sources, so the finite values are kept as the
  rationals they denote.
\<close>

datatype pyfloat = Finite rat | PosInf | NegInf | NaN

datatype pynumber = PInt int | PFloat pyfloat

fun float_gt_one :: "pyfloat \<Rightarrow> bool" where
  "float_gt_one (Finite r) = (1 < r)"
| "float_gt_one PosInf = True"
| "float_gt_one NegInf = False"
| "float_gt_one NaN = False"

text \<open>\<^verbatim>\<open>int(x)\<close> truncates towards zero and refuses infinities and NaN.\<close>

fun int_of_float :: "pyfloat \<Rightarrow> error + int" where
  "int_of_float (Finite r) = Inr (if 0 \<le> r then \<lfloor>r\<rfloor> else \<lceil>r\<rceil>)"
| "int_of_float PosInf = Inl OverflowError"
| "int_of_float NegInf = Inl OverflowError"
| "int_of_float NaN = Inl (ValueError ''cannot convert float NaN to integer'')"

section \<open>Finetune4bConfig\<close>

record Finetune4bConfig =
  dataset :: string
  ds_type :: string
  lora_out_dir :: string
  lora_apply_dir :: string
  llama_q4_config_dir :: string
  llama_q4_model :: string
  mbatch_size :: int
  batch_size :: int
  gradient_accumulation_steps :: int
  epochs :: int
  lr :: pyfloat
  cutoff_len :: int
  lora_r :: int
  lora_alpha :: int
  lora_dropout :: pyfloat
  val_set_size :: pynumber
  warmup_steps :: int
  save_steps :: int
  save_total_limit :: int
  logging_steps :: int
  checkpoint :: bool
  skip :: bool

text \<open>
  \<^verbatim>\<open>Finetune4bConfig.__init__\<close>. The assignments run in the order of the source: the
  floor division of line 47 comes before the conversion of \<open>val_set_size\<close> of line 54,
  so a zero micro-batch size raises first.
\<close>

definition Finetune4bConfig_init ::
  "string \<Rightarrow> string \<Rightarrow> string \<Rightarrow> string \<Rightarrow> string \<Rightarrow> string \<Rightarrow> int \<Rightarrow> int \<Rightarrow> int \<Rightarrow> pyfloat
    \<Rightarrow> int \<Rightarrow> int \<Rightarrow> int \<Rightarrow> pyfloat \<Rightarrow> pyfloat \<Rightarrow> int \<Rightarrow> int \<Rightarrow> int \<Rightarrow> int \<Rightarrow> bool \<Rightarrow> bool
    \<Rightarrow> error + Finetune4bConfig" where
  "Finetune4bConfig_init dataset' ds_type' lora_out_dir' lora_apply_dir' llama_q4_config_dir'
      llama_q4_model' mbatch_size' batch_size' epochs' lr' cutoff_len' lora_r' lora_alpha'
      lora_dropout' val_set_size' warmup_steps' save_steps' save_total_limit' logging_steps'
      checkpoint' skip' =
    (if mbatch_size' = 0 then Inl ZeroDivisionError
     else
       (case (if float_gt_one val_set_size'
              then map_sum id PInt (int_of_float val_set_size')
              else Inr (PFloat val_set_size')) of
          Inl e \<Rightarrow> Inl e
        | Inr v \<Rightarrow>
            Inr \<lparr> dataset = dataset', ds_type = ds_type', lora_out_dir = lora_out_dir',
                  lora_apply_dir = lora_apply_dir',
                  llama_q4_config_dir = llama_q4_config_dir',
                  llama_q4_model = llama_q4_model',
                  mbatch_size = mbatch_size', batch_size = batch_size',
                  gradient_accumulation_steps = batch_size' div mbatch_size',
                  epochs = epochs', lr = lr', cutoff_len = cutoff_len', lora_r = lora_r',
                  lora_alpha = lora_alpha', lora_dropout = lora_dropout',
                  val_set_size = v, warmup_steps = warmup_steps',
                  save_steps = save_steps', save_total_limit = save_total_limit',
                  logging_steps = logging_steps', checkpoint = checkpoint',
                  skip = skip' \<rparr>))"

section \<open>Tensors and the external runtime\<close>

text \<open>
  A tensor is its element type, its shape, its elements and its \<^verbatim>\<open>requires_grad\<close> flag.
  The elements are raw encodings (one integer per element), or \<open>Uninit\<close> for the
  unspecified memory \<^verbatim>\<open>torch.empty\<close> hands out: two uninitialised tensors of one shape
  and element type are the same value here. Tensors are taken to live on the device the
  kernels need.
\<close>

datatype dtype = Float16 | Float32 | Float64 | Int32 | Int64

datatype contents = Uninit | Data "int list"

record tensor =
  dtype :: dtype
  shape :: "nat list"
  elems :: contents
  requires_grad :: bool

definition is_floating_point :: "tensor \<Rightarrow> bool" where
  "is_floating_point t = (dtype t = Float16 \<or> dtype t = Float32 \<or> dtype t = Float64)"

text \<open>\<^verbatim>\<open>torch.empty(shape, dtype=...)\<close>: a negative dimension is refused.\<close>

definition torch_empty :: "int list \<Rightarrow> dtype \<Rightarrow> error + tensor" where
  "torch_empty dims dt =
    (if list_ex (\<lambda>d. d < 0) dims then Inl RuntimeError
     else Inr \<lparr> dtype = dt, shape = map nat dims, elems = Uninit, requires_grad = False \<rparr>)"

text \<open>
  \<^verbatim>\<open>torch.tensor(values, dtype=torch.int32)\<close> of a flat list of Python integers: a value
  outside the 32-bit range is refused.
\<close>

definition torch_tensor_int32 :: "int list \<Rightarrow> error + tensor" where
  "torch_tensor_int32 vs =
    (if list_ex (\<lambda>v. v < - (2 ^ 31) \<or> 2 ^ 31 \<le> v) vs then Inl RuntimeError
     else Inr \<lparr> dtype = Int32, shape = [length vs], elems = Data vs, requires_grad = False \<rparr>)"

text \<open>
  What the sources call and do not define: the compiled kernels of \<^verbatim>\<open>matmul_utils_4bit\<close>
  (\<^verbatim>\<open>mm4b\<close>), the JIT kernels of \<^verbatim>\<open>triton_utils\<close> (\<^verbatim>\<open>tu\<close>), and torch's element
  conversion and in-place addition. They are parameters of the model; each kernel may
  raise. The last argument of the three \<^verbatim>\<open>recons\<close> kernels is the \<^verbatim>\<open>transpose\<close> keyword.
\<close>

record runtime =
  mm4b_matmul4bit_v1_recons ::
    "tensor \<Rightarrow> tensor \<Rightarrow> tensor \<Rightarrow> tensor \<Rightarrow> bool \<Rightarrow> error + tensor"
  mm4b_matmul4bit_v2_recons ::
    "tensor \<Rightarrow> tensor \<Rightarrow> tensor \<Rightarrow> tensor \<Rightarrow> tensor \<Rightarrow> bool \<Rightarrow> error + tensor"
  mm4b_matmul2bit_v2_recons ::
    "tensor \<Rightarrow> tensor \<Rightarrow> tensor \<Rightarrow> tensor \<Rightarrow> tensor option \<Rightarrow> bool \<Rightarrow> error + tensor"
  mm4b_matmul4bit ::
    "tensor \<Rightarrow> tensor \<Rightarrow> tensor \<Rightarrow> tensor \<Rightarrow> tensor option \<Rightarrow> int \<Rightarrow> error + tensor"
  tu_triton_matmul ::
    "tensor \<Rightarrow> tensor \<Rightarrow> tensor \<Rightarrow> tensor \<Rightarrow> tensor option \<Rightarrow> int \<Rightarrow> pynumber
      \<Rightarrow> error + tensor"
  tu_triton_matmul_transpose ::
    "tensor \<Rightarrow> tensor \<Rightarrow> tensor \<Rightarrow> tensor \<Rightarrow> tensor option \<Rightarrow> int \<Rightarrow> pynumber
      \<Rightarrow> error + tensor"
  convert :: "dtype \<Rightarrow> dtype \<Rightarrow> int \<Rightarrow> int"
  iadd :: "tensor \<Rightarrow> tensor \<Rightarrow> error + tensor"

text \<open>
  \<^verbatim>\<open>Tensor.to(dtype)\<close>, of which \<^verbatim>\<open>Tensor.half()\<close> and \<^verbatim>\<open>Tensor.float()\<close> are the
  instances at \<open>Float16\<close> and \<open>Float32\<close>: a tensor that already has the element type is
  returned as it is.
\<close>

definition tensor_to :: "runtime \<Rightarrow> dtype \<Rightarrow> tensor \<Rightarrow> tensor" where
  "tensor_to R d t =
    (if dtype t = d then t
     else t\<lparr> dtype := d,
             elems := (case elems t of Uninit \<Rightarrow> Uninit
                       | Data xs \<Rightarrow> Data (map (convert R (dtype t) d) xs)) \<rparr>)"

text \<open>The execution context: gradient mode and autocast mode.\<close>

record exec_ctx =
  grad_enabled :: bool
  autocast_enabled :: bool

section \<open>The autograd operators\<close>

datatype autograd_op =
    AutogradMatmul4bitNotImplemented
  | AutogradMatmul4bitCuda
  | AutogradMatmul2bitCuda
  | AutogradMatmul4bitTriton

text \<open>
  The differentiation context \<^verbatim>\<open>ctx\<close>: one \<^verbatim>\<open>needs_input_grad\<close> flag per argument of
  \<^verbatim>\<open>forward\<close>, the tensors of \<^verbatim>\<open>save_for_backward\<close> (\<open>None\<close> before anything is saved;
  the saved \<^verbatim>\<open>g_idx\<close> may be Python's \<^verbatim>\<open>None\<close>), and the two attributes only the Triton
  operator sets.
\<close>

record ctx =
  needs_input_grad :: "bool list"
  saved_tensors :: "(tensor \<times> tensor \<times> tensor \<times> tensor option) option"
  ctx_bits :: "int option"
  ctx_maxq :: "pynumber option"

type_synonym grads = "tensor option list"

text \<open>\<^verbatim>\<open>output.clone()\<close>: a fresh copy, the same value.\<close>

definition clone :: "tensor \<Rightarrow> tensor" where
  "clone t = t"

definition NotImplemented_forward ::
  "runtime \<Rightarrow> ctx \<Rightarrow> tensor \<Rightarrow> tensor \<Rightarrow> tensor \<Rightarrow> tensor \<Rightarrow> tensor option \<Rightarrow> int \<Rightarrow> pynumber
    \<Rightarrow> error + (ctx \<times> tensor)" where
  "NotImplemented_forward R c x qweight' scales' zeros' g_idx' bits' maxq' =
    Inl NotImplementedError"

definition NotImplemented_backward :: "runtime \<Rightarrow> ctx \<Rightarrow> tensor \<Rightarrow> error + grads" where
  "NotImplemented_backward R c grad_output = Inl NotImplementedError"

definition Cuda4bit_forward ::
  "runtime \<Rightarrow> ctx \<Rightarrow> tensor \<Rightarrow> tensor \<Rightarrow> tensor \<Rightarrow> tensor \<Rightarrow> tensor option \<Rightarrow> int \<Rightarrow> pynumber
    \<Rightarrow> error + (ctx \<times> tensor)" where
  "Cuda4bit_forward R c x qweight' scales' zeros' g_idx' bits' maxq' =
    (let c' = c\<lparr> saved_tensors := Some (qweight', scales', zeros', g_idx') \<rparr> in
     case (case g_idx' of
             None \<Rightarrow> mm4b_matmul4bit_v1_recons R x qweight' scales' zeros' False
           | Some g \<Rightarrow> mm4b_matmul4bit_v2_recons R x qweight' scales' zeros' g False) of
       Inl e \<Rightarrow> Inl e
     | Inr output \<Rightarrow> Inr (c', clone output))"

text \<open>
  \<^verbatim>\<open>AutogradMatmul4bitCuda.backward\<close>: \<^verbatim>\<open>grad\<close> is assigned only under
  \<^verbatim>\<open>ctx.needs_input_grad[0]\<close>, and the \<^verbatim>\<open>return\<close> reads it in either case.
\<close>

definition Cuda4bit_backward :: "runtime \<Rightarrow> ctx \<Rightarrow> tensor \<Rightarrow> error + grads" where
  "Cuda4bit_backward R c grad_output =
    (case saved_tensors c of
       None \<Rightarrow> Inl (ValueError ''not enough values to unpack'')
     | Some (qweight', scales', zeros', g_idx') \<Rightarrow>
         (case needs_input_grad c of
            [] \<Rightarrow> Inl (IndexError)
          | needs_x # _ \<Rightarrow>
              if needs_x then
                (case (case g_idx' of
                         None \<Rightarrow>
                           mm4b_matmul4bit_v1_recons R grad_output qweight' scales' zeros' True
                       | Some g \<Rightarrow>
                           mm4b_matmul4bit_v2_recons R grad_output qweight' scales' zeros' g
                             True) of
                   Inl e \<Rightarrow> Inl e
                 | Inr grad \<Rightarrow> Inr [Some grad, None, None, None, None, None, None])
              else Inl (UnboundLocalError ''grad'')))"

definition Cuda2bit_forward ::
  "runtime \<Rightarrow> ctx \<Rightarrow> tensor \<Rightarrow> tensor \<Rightarrow> tensor \<Rightarrow> tensor \<Rightarrow> tensor option \<Rightarrow> int \<Rightarrow> pynumber
    \<Rightarrow> error + (ctx \<times> tensor)" where
  "Cuda2bit_forward R c x qweight' scales' zeros' g_idx' bits' maxq' =
    (let c' = c\<lparr> saved_tensors := Some (qweight', scales', zeros', g_idx') \<rparr> in
     case mm4b_matmul2bit_v2_recons R x qweight' scales' zeros' g_idx' False of
       Inl e \<Rightarrow> Inl e
     | Inr output \<Rightarrow> Inr (c', clone output))"

definition Cuda2bit_backward :: "runtime \<Rightarrow> ctx \<Rightarrow> tensor \<Rightarrow> error + grads" where
  "Cuda2bit_backward R c grad_output =
    (case saved_tensors c of
       None \<Rightarrow> Inl (ValueError ''not enough values to unpack'')
     | Some (qweight', scales', zeros', g_idx') \<Rightarrow>
         (case needs_input_grad c of
            [] \<Rightarrow> Inl (IndexError)
          | needs_x # _ \<Rightarrow>
              if needs_x then
                (case mm4b_matmul2bit_v2_recons R grad_output qweight' scales' zeros' g_idx'
                        True of
                   Inl e \<Rightarrow> Inl e
                 | Inr grad \<Rightarrow> Inr [Some grad, None, None, None, None, None, None])
              else Inl (UnboundLocalError ''grad'')))"

text \<open>
  \<^verbatim>\<open>AutogradMatmul4bitTriton\<close>: the kernel runs before the tensors are saved, and
  \<^verbatim>\<open>backward\<close> starts from \<^verbatim>\<open>grad_input = None\<close>.
\<close>

definition Triton4bit_forward ::
  "runtime \<Rightarrow> ctx \<Rightarrow> tensor \<Rightarrow> tensor \<Rightarrow> tensor \<Rightarrow> tensor \<Rightarrow> tensor option \<Rightarrow> int \<Rightarrow> pynumber
    \<Rightarrow> error + (ctx \<times> tensor)" where
  "Triton4bit_forward R c x qweight' scales' qzeros' g_idx' bits' maxq' =
    (case tu_triton_matmul R x qweight' scales' qzeros' g_idx' bits' maxq' of
       Inl e \<Rightarrow> Inl e
     | Inr output \<Rightarrow>
         Inr (c\<lparr> saved_tensors := Some (qweight', scales', qzeros', g_idx'),
                 ctx_bits := Some bits', ctx_maxq := Some maxq' \<rparr>,
              clone output))"

definition Triton4bit_backward :: "runtime \<Rightarrow> ctx \<Rightarrow> tensor \<Rightarrow> error + grads" where
  "Triton4bit_backward R c grad_output =
    (case saved_tensors c of
       None \<Rightarrow> Inl (ValueError ''not enough values to unpack'')
     | Some (qweight', scales', qzeros', g_idx') \<Rightarrow>
         (case ctx_bits c of
            None \<Rightarrow> Inl (AttributeError ''bits'')
          | Some bits' \<Rightarrow>
              (case ctx_maxq c of
                 None \<Rightarrow> Inl (AttributeError ''maxq'')
               | Some maxq' \<Rightarrow>
                   (case needs_input_grad c of
                      [] \<Rightarrow> Inl (IndexError)
                    | needs_x # _ \<Rightarrow>
                        if needs_x then
                          (case tu_triton_matmul_transpose R grad_output qweight' scales'
                                  qzeros' g_idx' bits' maxq' of
                             Inl e \<Rightarrow> Inl e
                           | Inr grad_input \<Rightarrow>
                               Inr [Some grad_input, None, None, None, None, None, None])
                        else Inr [None, None, None, None, None, None, None]))))"

fun op_forward ::
  "autograd_op \<Rightarrow> runtime \<Rightarrow> ctx \<Rightarrow> tensor \<Rightarrow> tensor \<Rightarrow> tensor \<Rightarrow> tensor \<Rightarrow> tensor option \<Rightarrow> int
    \<Rightarrow> pynumber \<Rightarrow> error + (ctx \<times> tensor)" where
  "op_forward AutogradMatmul4bitNotImplemented = NotImplemented_forward"
| "op_forward AutogradMatmul4bitCuda = Cuda4bit_forward"
| "op_forward AutogradMatmul2bitCuda = Cuda2bit_forward"
| "op_forward AutogradMatmul4bitTriton = Triton4bit_forward"

fun op_backward :: "autograd_op \<Rightarrow> runtime \<Rightarrow> ctx \<Rightarrow> tensor \<Rightarrow> error + grads" where
  "op_backward AutogradMatmul4bitNotImplemented = NotImplemented_backward"
| "op_backward AutogradMatmul4bitCuda = Cuda4bit_backward"
| "op_backward AutogradMatmul2bitCuda = Cuda2bit_backward"
| "op_backward AutogradMatmul4bitTriton = Triton4bit_backward"

section \<open>The backend registry\<close>

text \<open>
  The module-level names the backend code reads and writes. \<open>has_Cuda\<close> and \<open>has_Triton\<close>
  say whether \<^verbatim>\<open>AutogradMatmul4bitCuda\<close> and \<^verbatim>\<open>AutogradMatmul4bitTriton\<close> are in
  \<^verbatim>\<open>globals()\<close>: each class is defined in the \<^verbatim>\<open>try\<close> block of its import, together with
  the name \<^verbatim>\<open>mm4b\<close> or \<^verbatim>\<open>tu\<close>.
\<close>

record globals =
  gptq_backend_loaded :: bool
  triton_backend_loaded :: bool
  has_Cuda :: bool
  has_Triton :: bool
  AutogradMatmul4bit :: autograd_op
  AutogradMatmul2bit :: autograd_op
  backend :: "string option"

definition is_triton_backend_available :: "globals \<Rightarrow> bool" where
  "is_triton_backend_available G = has_Triton G"

definition is_gptq_backend_available :: "globals \<Rightarrow> bool" where
  "is_gptq_backend_available G = has_Cuda G"

text \<open>
  Lines 13 to 130, run once at import. The arguments say whether
  \<^verbatim>\<open>import matmul_utils_4bit\<close> and \<^verbatim>\<open>import triton_utils\<close> succeeded.
\<close>

definition load_module :: "bool \<Rightarrow> bool \<Rightarrow> globals" where
  "load_module import_mm4b import_tu =
    (let G = \<lparr> gptq_backend_loaded = import_mm4b, triton_backend_loaded = import_tu,
                has_Cuda = import_mm4b, has_Triton = import_tu,
                AutogradMatmul4bit = AutogradMatmul4bitNotImplemented,
                AutogradMatmul2bit = AutogradMatmul4bitNotImplemented,
                backend = None \<rparr>
     in if is_gptq_backend_available G then
          G\<lparr> AutogradMatmul4bit := AutogradMatmul4bitCuda,
             AutogradMatmul2bit := AutogradMatmul2bitCuda,
             backend := Some ''cuda'' \<rparr>
        else if is_triton_backend_available G then
          G\<lparr> AutogradMatmul4bit := AutogradMatmul4bitTriton, backend := Some ''triton'' \<rparr>
        else G)"

text \<open>
  \<^verbatim>\<open>switch_backend_to\<close> returns the exception it raised, if any, and the globals after
  the call.
\<close>

definition switch_backend_to :: "string \<Rightarrow> globals \<Rightarrow> error option \<times> globals" where
  "switch_backend_to to_backend G =
    (if to_backend = ''cuda'' then
       if \<not> is_gptq_backend_available G then
         (Some (ValueError ''quant_cuda not found. Please reinstall with pip install .''), G)
       else (None, G\<lparr> AutogradMatmul4bit := AutogradMatmul4bitCuda, backend := Some ''cuda'' \<rparr>)
     else if to_backend = ''triton'' then
       if \<not> is_triton_backend_available G then
         (Some (ValueError ''Triton not found. Please install triton''), G)
       else (None, G\<lparr> AutogradMatmul4bit := AutogradMatmul4bitTriton,
                       backend := Some ''triton'' \<rparr>)
     else (Some (ValueError ''Backend not supported.''), G))"

text \<open>A run of backend switches; a caller that catches a failure goes on with the next.\<close>

fun switch_all :: "string list \<Rightarrow> globals \<Rightarrow> globals" where
  "switch_all [] G = G"
| "switch_all (n # ns) G = switch_all ns (snd (switch_backend_to n G))"

definition matmul4bit_with_backend ::
  "runtime \<Rightarrow> globals \<Rightarrow> tensor \<Rightarrow> tensor \<Rightarrow> tensor \<Rightarrow> tensor \<Rightarrow> tensor option \<Rightarrow> int \<Rightarrow> pynumber
    \<Rightarrow> int \<Rightarrow> error + tensor" where
  "matmul4bit_with_backend R G x qweight' scales' qzeros' g_idx' bits' maxq' groupsize' =
    (if backend G = Some ''cuda'' then
       if has_Cuda G then mm4b_matmul4bit R x qweight' scales' qzeros' g_idx' groupsize'
       else Inl (NameError ''mm4b'')
     else if backend G = Some ''triton'' then
       if dtype qzeros' \<noteq> Int32 then Inl AssertionError
       else if has_Triton G then
         tu_triton_matmul R x qweight' scales' qzeros' g_idx' bits' maxq'
       else Inl (NameError ''tu'')
     else Inl (ValueError ''Backend not supported.''))"

section \<open>The quantized linear module\<close>

text \<open>
  The attributes of one \<^verbatim>\<open>Autograd4bitQuantLinear\<close>. \<open>zeros\<close> and \<open>qzeros\<close> are \<open>None\<close> when
  the module has no such attribute (each layout registers one of the two); \<open>g_idx\<close> is
  \<open>None\<close> when the attribute is Python's \<^verbatim>\<open>None\<close>.
\<close>

record Autograd4bitQuantLinear =
  in_features :: int
  out_features :: int
  bits :: int
  maxq :: pynumber
  groupsize :: int
  is_v1_model :: bool
  disable_bias :: bool
  zeros :: "tensor option"
  scales :: tensor
  g_idx :: "tensor option"
  qzeros :: "tensor option"
  bias :: tensor
  qweight :: tensor

text \<open>
  \<^verbatim>\<open>2 ** bits - 1\<close>: an integer for a non-negative exponent, a float otherwise (given
  exactly; Python rounds it to a double once \<open>bits\<close> is below \<open>-52\<close>).
\<close>

definition maxq_of :: "int \<Rightarrow> pynumber" where
  "maxq_of b =
    (if 0 \<le> b then PInt (2 ^ nat b - 1) else PFloat (Finite (1 / 2 ^ nat (- b) - 1)))"

text \<open>
  \<^verbatim>\<open>math.ceil(a / b)\<close> for integers: the exact ceiling, with which the float quotient
  agrees for operands below \<open>2 ^ 53\<close>. A zero divisor raises.
\<close>

definition ceil_div :: "int \<Rightarrow> int \<Rightarrow> error + int" where
  "ceil_div a b = (if b = 0 then Inl ZeroDivisionError else Inr (- ((- a) div b)))"

text \<open>\<^verbatim>\<open>[i // groupsize for i in range(in_features)]\<close>, reached only past \<open>ceil_div\<close>.\<close>

definition group_index :: "int \<Rightarrow> int \<Rightarrow> int list" where
  "group_index in_features' groupsize' =
    map (\<lambda>i. int i div groupsize') [0..<nat in_features']"

text \<open>
  \<^verbatim>\<open>Autograd4bitQuantLinear.__init__\<close>, with the buffers registered in the order of the
  source, so that the first failing allocation decides the exception. The floating-point
  buffers get torch's default element type, single precision.
\<close>

definition Autograd4bitQuantLinear_init ::
  "int \<Rightarrow> int \<Rightarrow> int \<Rightarrow> bool \<Rightarrow> int \<Rightarrow> error + Autograd4bitQuantLinear" where
  "Autograd4bitQuantLinear_init in_features' out_features' groupsize0 is_v1_model' bits' =
    (let groupsize' = (if groupsize0 \<noteq> - 1 then groupsize0 else in_features') in
     case (if is_v1_model' then
             (case torch_empty [out_features', 1] Float32 of
                Inl e \<Rightarrow> Inl e
              | Inr zeros' \<Rightarrow>
                  (case torch_empty [out_features', 1] Float32 of
                     Inl e \<Rightarrow> Inl e
                   | Inr scales' \<Rightarrow> Inr (Some zeros', None, scales', None)))
           else
             (case ceil_div in_features' groupsize' of
                Inl e \<Rightarrow> Inl e
              | Inr groups \<Rightarrow>
                  (case torch_empty [groups, out_features' div 256 * (bits' * 8)] Int32 of
                     Inl e \<Rightarrow> Inl e
                   | Inr qzeros' \<Rightarrow>
                       (case torch_empty [groups, out_features'] Float32 of
                          Inl e \<Rightarrow> Inl e
                        | Inr scales' \<Rightarrow>
                            (case torch_tensor_int32 (group_index in_features' groupsize') of
                               Inl e \<Rightarrow> Inl e
                             | Inr g_idx' \<Rightarrow>
                                 Inr (None, Some qzeros', scales', Some g_idx')))))) of
       Inl e \<Rightarrow> Inl e
     | Inr (zeros', qzeros', scales', g_idx') \<Rightarrow>
         (case torch_empty [out_features'] Float32 of
            Inl e \<Rightarrow> Inl e
          | Inr bias' \<Rightarrow>
              (case torch_empty [in_features' div 256 * (bits' * 8), out_features'] Int32 of
                 Inl e \<Rightarrow> Inl e
               | Inr qweight' \<Rightarrow>
                   Inr \<lparr> in_features = in_features', out_features = out_features',
                         bits = bits', maxq = maxq_of bits', groupsize = groupsize',
                         is_v1_model = is_v1_model', disable_bias = False,
                         zeros = zeros', scales = scales', g_idx = g_idx',
                         qzeros = qzeros', bias = bias', qweight = qweight' \<rparr>)))"

text \<open>
  \<^verbatim>\<open>custom_fwd(cast_inputs=torch.float16)\<close>: inside an autocast region the floating-point
  tensor arguments other than doubles are cast to half precision; outside, the arguments
  pass unchanged.
\<close>

definition cast_input :: "runtime \<Rightarrow> exec_ctx \<Rightarrow> tensor \<Rightarrow> tensor" where
  "cast_input R E t =
    (if autocast_enabled E \<and> is_floating_point t \<and> dtype t \<noteq> Float64
     then tensor_to R Float16 t else t)"

text \<open>
  \<^verbatim>\<open>Function.apply\<close>: a fresh context with one \<^verbatim>\<open>needs_input_grad\<close> flag per argument,
  the operator's \<^verbatim>\<open>forward\<close>, and the graph node (operator and context) that is recorded
  when gradient mode is on and some input requires a gradient.
\<close>

definition autograd_apply ::
  "runtime \<Rightarrow> exec_ctx \<Rightarrow> autograd_op \<Rightarrow> tensor \<Rightarrow> tensor \<Rightarrow> tensor \<Rightarrow> tensor \<Rightarrow> tensor option
    \<Rightarrow> int \<Rightarrow> pynumber \<Rightarrow> error + (tensor \<times> (autograd_op \<times> ctx) option)" where
  "autograd_apply R E f x qweight' scales' zeros' g_idx' bits' maxq' =
    (let needs = [requires_grad x, requires_grad qweight', requires_grad scales',
                  requires_grad zeros',
                  (case g_idx' of None \<Rightarrow> False | Some g \<Rightarrow> requires_grad g), False, False];
         c = \<lparr> needs_input_grad = needs, saved_tensors = None, ctx_bits = None,
               ctx_maxq = None \<rparr>
     in case op_forward f R c (cast_input R E x) (cast_input R E qweight')
               (cast_input R E scales') (cast_input R E zeros')
               (map_option (cast_input R E) g_idx') bits' maxq' of
          Inl e \<Rightarrow> Inl e
        | Inr (c', out) \<Rightarrow>
            if grad_enabled E \<and> list_ex (\<lambda>b. b) needs
            then Inr (out\<lparr> requires_grad := True \<rparr>, Some (f, c'))
            else Inr (out\<lparr> requires_grad := False \<rparr>, None))"

text \<open>
  \<^verbatim>\<open>self.qzeros if not self.is_v1_model else self.zeros\<close>; reading an attribute the
  module does not have raises.
\<close>

definition zero_point_buffer :: "Autograd4bitQuantLinear \<Rightarrow> error + tensor" where
  "zero_point_buffer self =
    (if \<not> is_v1_model self
     then (case qzeros self of None \<Rightarrow> Inl (AttributeError ''qzeros'') | Some t \<Rightarrow> Inr t)
     else (case zeros self of None \<Rightarrow> Inl (AttributeError ''zeros'') | Some t \<Rightarrow> Inr t))"

text \<open>
  The last three lines of \<^verbatim>\<open>forward\<close>: \<^verbatim>\<open>out += self.bias\<close> unless the bias is
  disabled. The graph node of the output stays with it.
\<close>

definition add_bias ::
  "runtime \<Rightarrow> Autograd4bitQuantLinear \<Rightarrow> tensor \<times> (autograd_op \<times> ctx) option
    \<Rightarrow> error + (tensor \<times> (autograd_op \<times> ctx) option)" where
  "add_bias R self r =
    (case r of
       (out, node) \<Rightarrow>
         if \<not> disable_bias self then
           (case iadd R out (bias self) of
              Inl e \<Rightarrow> Inl e
            | Inr out' \<Rightarrow> Inr (out', node))
         else Inr (out, node))"

text \<open>
  \<^verbatim>\<open>Autograd4bitQuantLinear.forward\<close>. The result is the output tensor and the graph node
  the call recorded, if any. The attributes are read in the order of the argument list.
\<close>

definition forward ::
  "runtime \<Rightarrow> globals \<Rightarrow> exec_ctx \<Rightarrow> Autograd4bitQuantLinear \<Rightarrow> tensor
    \<Rightarrow> error + (tensor \<times> (autograd_op \<times> ctx) option)" where
  "forward R G E self x =
    (case (if bits self = 4 then
             if grad_enabled E then
               (case zero_point_buffer self of
                  Inl e \<Rightarrow> Inl e
                | Inr z \<Rightarrow>
                    autograd_apply R E (AutogradMatmul4bit G) x (qweight self) (scales self) z
                      (g_idx self) (bits self) (maxq self))
             else
               (case zero_point_buffer self of
                  Inl e \<Rightarrow> Inl e
                | Inr z \<Rightarrow>
                    (case matmul4bit_with_backend R G x (qweight self) (scales self) z
                            (g_idx self) (bits self) (maxq self) (groupsize self) of
                       Inl e \<Rightarrow> Inl e
                     | Inr out \<Rightarrow> Inr (out, None)))
           else if bits self = 2 then
             (case qzeros self of
                None \<Rightarrow> Inl (AttributeError ''qzeros'')
              | Some z \<Rightarrow>
                  autograd_apply R E (AutogradMatmul2bit G) x (qweight self) (scales self) z
                    (g_idx self) (bits self) (maxq self))
           else Inl (ValueError ''Unsupported bitwidth.'')) of
       Inl e \<Rightarrow> Inl e
     | Inr r \<Rightarrow> add_bias R self r)"

section \<open>The host model\<close>

text \<open>
  A host model is a tree of modules. A module that is not a quantized linear layer is the
  list of its attributes, in the order \<^verbatim>\<open>dir\<close> and \<^verbatim>\<open>named_children\<close> report them: a
  child module, a registered parameter or buffer, or any other Python value. Of the other
  values only the integers are told apart (a layer's \<^verbatim>\<open>in_features\<close>); they have no
  \<^verbatim>\<open>in_features\<close> or \<^verbatim>\<open>out_features\<close> of their own. No module occurs at two places.
\<close>

datatype pyobj = IntV int | NoneV | OtherV

datatype module = QuantLinear Autograd4bitQuantLinear | Module "(string \<times> attr) list"
  and attr = Sub module | Buf tensor | Val pyobj

text \<open>The number of modules of a tree that are not quantized linear layers.\<close>

fun plain_modules :: "module \<Rightarrow> nat"
  and plain_modules_attrs :: "(string \<times> attr) list \<Rightarrow> nat" where
  "plain_modules (QuantLinear q) = 0"
| "plain_modules (Module as) = Suc (plain_modules_attrs as)"
| "plain_modules_attrs [] = 0"
| "plain_modules_attrs ((a, Sub m) # r) = plain_modules m + plain_modules_attrs r"
| "plain_modules_attrs ((a, Buf t) # r) = plain_modules_attrs r"
| "plain_modules_attrs ((a, Val x) # r) = plain_modules_attrs r"

definition getattr :: "(string \<times> attr) list \<Rightarrow> string \<Rightarrow> error + attr" where
  "getattr as a = (case map_of as a of None \<Rightarrow> Inl (AttributeError a) | Some v \<Rightarrow> Inr v)"

definition setattr :: "(string \<times> attr) list \<Rightarrow> string \<Rightarrow> attr \<Rightarrow> (string \<times> attr) list" where
  "setattr as a v = AList.update a v as"

text \<open>\<^verbatim>\<open>tmp.in_features\<close> and \<^verbatim>\<open>tmp.out_features\<close> of an attribute value \<^verbatim>\<open>tmp\<close>.\<close>

fun get_feature :: "string \<Rightarrow> attr \<Rightarrow> error + pyobj" where
  "get_feature f (Sub (QuantLinear q)) =
     (if f = ''in_features'' then Inr (IntV (in_features q))
      else if f = ''out_features'' then Inr (IntV (out_features q))
      else Inl (AttributeError f))"
| "get_feature f (Sub (Module as)) =
     (case map_of as f of
        None \<Rightarrow> Inl (AttributeError f)
      | Some (Val v) \<Rightarrow> Inr v
      | Some _ \<Rightarrow> Inr OtherV)"
| "get_feature f (Buf t) = Inl (AttributeError f)"
| "get_feature f (Val v) = Inl (AttributeError f)"

text \<open>
  The constructor call of line 219 on the two values read from \<^verbatim>\<open>tmp\<close>: sizes that are
  not integers are refused by the shape arithmetic.
\<close>

definition construct_quant ::
  "pyobj \<Rightarrow> pyobj \<Rightarrow> int \<Rightarrow> bool \<Rightarrow> int \<Rightarrow> error + Autograd4bitQuantLinear" where
  "construct_quant fi fo groupsize' is_v1_model' bits' =
    (case (fi, fo) of
       (IntV i, IntV k) \<Rightarrow> Autograd4bitQuantLinear_init i k groupsize' is_v1_model' bits'
     | _ \<Rightarrow> Inl TypeError)"

text \<open>\<^verbatim>\<open>name + '.' + attr if name != '' else attr\<close>.\<close>

definition dotted_name :: "string \<Rightarrow> string \<Rightarrow> string" where
  "dotted_name name a = (if name \<noteq> [] then name @ ''.'' @ a else a)"

text \<open>
  The first loop of \<^verbatim>\<open>make_quant_for_4bit_autograd\<close>, over the names \<^verbatim>\<open>dir(module)\<close>
  listed before the loop started.
\<close>

fun replace_attrs ::
  "string set \<Rightarrow> string \<Rightarrow> int \<Rightarrow> bool \<Rightarrow> int \<Rightarrow> string list \<Rightarrow> (string \<times> attr) list
    \<Rightarrow> error + (string \<times> attr) list" where
  "replace_attrs names name g v b [] as = Inr as"
| "replace_attrs names name g v b (a # rest) as =
    (case getattr as a of
       Inl e \<Rightarrow> Inl e
     | Inr tmp \<Rightarrow>
         if dotted_name name a \<in> names then
           (case get_feature ''in_features'' tmp of
              Inl e \<Rightarrow> Inl e
            | Inr fi \<Rightarrow>
                (case get_feature ''out_features'' tmp of
                   Inl e \<Rightarrow> Inl e
                 | Inr fo \<Rightarrow>
                     (case construct_quant fi fo g v b of
                        Inl e \<Rightarrow> Inl e
                      | Inr q \<Rightarrow>
                          replace_attrs names name g v b rest
                            (setattr as a (Sub (QuantLinear q))))))
         else replace_attrs names name g v b rest as)"

text \<open>
  \<^verbatim>\<open>make_quant_for_4bit_autograd(module, names, name, groupsize, is_v1_model, bits)\<close>
  returns the module as the call left it. \<open>quant_children\<close> is its second loop, over
  \<^verbatim>\<open>named_children()\<close> of the module the first loop has rewritten.
\<close>

function make_quant_for_4bit_autograd ::
  "module \<Rightarrow> string set \<Rightarrow> string \<Rightarrow> int \<Rightarrow> bool \<Rightarrow> int \<Rightarrow> error + module"
  and quant_children ::
  "(string \<times> attr) list \<Rightarrow> string set \<Rightarrow> string \<Rightarrow> int \<Rightarrow> bool \<Rightarrow> int
    \<Rightarrow> error + (string \<times> attr) list" where
  "make_quant_for_4bit_autograd (QuantLinear q) names name g v b = Inr (QuantLinear q)"
| "make_quant_for_4bit_autograd (Module as) names name g v b =
    (case replace_attrs names name g v b (map fst as) as of
       Inl e \<Rightarrow> Inl e
     | Inr as' \<Rightarrow>
         (case quant_children as' names name g v b of
            Inl e \<Rightarrow> Inl e
          | Inr as'' \<Rightarrow> Inr (Module as'')))"
| "quant_children [] names name g v b = Inr []"
| "quant_children ((a, Sub child) # rest) names name g v b =
    (case make_quant_for_4bit_autograd child names (dotted_name name a) g v b of
       Inl e \<Rightarrow> Inl e
     | Inr child' \<Rightarrow>
         (case quant_children rest names name g v b of
            Inl e \<Rightarrow> Inl e
          | Inr rest' \<Rightarrow> Inr ((a, Sub child') # rest')))"
| "quant_children ((a, Buf t) # rest) names name g v b =
    (case quant_children rest names name g v b of
       Inl e \<Rightarrow> Inl e
     | Inr rest' \<Rightarrow> Inr ((a, Buf t) # rest'))"
| "quant_children ((a, Val x) # rest) names name g v b =
    (case quant_children rest names name g v b of
       Inl e \<Rightarrow> Inl e
     | Inr rest' \<Rightarrow> Inr ((a, Val x) # rest'))"
  by pat_completeness auto

termination make_quant_for_4bit_autograd
proof (relation "inv_image (less_than <*lex*> less_than)
     (\<lambda>x. case x of Inl (m, _) \<Rightarrow> (plain_modules m, 0)
           | Inr (as, _) \<Rightarrow> (plain_modules_attrs as, Suc (length as)))", goal_cases)
  case 1
  show ?case by auto
next
  case (2 as names name g v b as')
  have upd: "plain_modules_attrs (AList.update a (Sub (QuantLinear q)) xs)
      \<le> plain_modules_attrs xs" for a q xs
  proof (induction xs)
    case Nil
    show ?case by simp
  next
    case (Cons p xs)
    obtain k x where p: "p = (k, x)" by (cases p)
    show ?case using Cons by (cases x) (auto simp: p)
  qed
  have "replace_attrs names name g v b ks xs = Inr ys
      \<Longrightarrow> plain_modules_attrs ys \<le> plain_modules_attrs xs" for ks xs ys
  proof (induction ks arbitrary: xs)
    case Nil
    then show ?case by simp
  next
    case (Cons a rest)
    then show ?case
      by (auto simp: setattr_def split: sum.splits if_splits
          intro: order_trans[OF _ upd])
  qed
  with 2 show ?case by fastforce
qed auto

section \<open>Precision conversion\<close>

text \<open>
  \<^verbatim>\<open>nn.Module.half()\<close> and \<^verbatim>\<open>nn.Module.float()\<close> cast the floating-point parameters and
  buffers of a module and of all modules below it, and leave every other tensor alone.
\<close>

definition cast_floating :: "runtime \<Rightarrow> dtype \<Rightarrow> tensor \<Rightarrow> tensor" where
  "cast_floating R d t = (if is_floating_point t then tensor_to R d t else t)"

fun module_cast :: "runtime \<Rightarrow> dtype \<Rightarrow> module \<Rightarrow> module"
  and attrs_cast :: "runtime \<Rightarrow> dtype \<Rightarrow> (string \<times> attr) list \<Rightarrow> (string \<times> attr) list" where
  "module_cast R d (QuantLinear q) =
    QuantLinear (q\<lparr> zeros := map_option (cast_floating R d) (zeros q),
                     scales := cast_floating R d (scales q),
                     g_idx := map_option (cast_floating R d) (g_idx q),
                     qzeros := map_option (cast_floating R d) (qzeros q),
                     bias := cast_floating R d (bias q),
                     qweight := cast_floating R d (qweight q) \<rparr>)"
| "module_cast R d (Module as) = Module (attrs_cast R d as)"
| "attrs_cast R d [] = []"
| "attrs_cast R d ((a, Sub m) # rest) = (a, Sub (module_cast R d m)) # attrs_cast R d rest"
| "attrs_cast R d ((a, Buf t) # rest) = (a, Buf (cast_floating R d t)) # attrs_cast R d rest"
| "attrs_cast R d ((a, Val x) # rest) = (a, Val x) # attrs_cast R d rest"

text \<open>
  The loop over \<^verbatim>\<open>model.named_modules()\<close> that \<^verbatim>\<open>model_to_half\<close> and \<^verbatim>\<open>model_to_float\<close>
  share, at the target element type \<open>d\<close>.
\<close>

fun convert_quant_buffers :: "runtime \<Rightarrow> dtype \<Rightarrow> module \<Rightarrow> error + module"
  and convert_quant_buffers_attrs ::
    "runtime \<Rightarrow> dtype \<Rightarrow> (string \<times> attr) list \<Rightarrow> error + (string \<times> attr) list" where
  "convert_quant_buffers R d (QuantLinear m) =
    (if is_v1_model m then
       (case zeros m of
          None \<Rightarrow> Inl (AttributeError ''zeros'')
        | Some z \<Rightarrow>
            Inr (QuantLinear (m\<lparr> zeros := Some (tensor_to R d z),
                                  scales := tensor_to R d (scales m),
                                  bias := tensor_to R d (bias m) \<rparr>)))
     else
       Inr (QuantLinear (m\<lparr> scales := tensor_to R d (scales m),
                             bias := tensor_to R d (bias m) \<rparr>)))"
| "convert_quant_buffers R d (Module as) =
    (case convert_quant_buffers_attrs R d as of
       Inl e \<Rightarrow> Inl e
     | Inr as' \<Rightarrow> Inr (Module as'))"
| "convert_quant_buffers_attrs R d [] = Inr []"
| "convert_quant_buffers_attrs R d ((a, Sub m) # rest) =
    (case convert_quant_buffers R d m of
       Inl e \<Rightarrow> Inl e
     | Inr m' \<Rightarrow>
         (case convert_quant_buffers_attrs R d rest of
            Inl e \<Rightarrow> Inl e
          | Inr rest' \<Rightarrow> Inr ((a, Sub m') # rest')))"
| "convert_quant_buffers_attrs R d ((a, Buf t) # rest) =
    (case convert_quant_buffers_attrs R d rest of
       Inl e \<Rightarrow> Inl e
     | Inr rest' \<Rightarrow> Inr ((a, Buf t) # rest'))"
| "convert_quant_buffers_attrs R d ((a, Val x) # rest) =
    (case convert_quant_buffers_attrs R d rest of
       Inl e \<Rightarrow> Inl e
     | Inr rest' \<Rightarrow> Inr ((a, Val x) # rest'))"

definition model_to_half :: "runtime \<Rightarrow> module \<Rightarrow> error + module" where
  "model_to_half R model = convert_quant_buffers R Float16 (module_cast R Float16 model)"

definition model_to_float :: "runtime \<Rightarrow> module \<Rightarrow> error + module" where
  "model_to_float R model = convert_quant_buffers R Float32 (module_cast R Float32 model)"

text \<open>
  What a caller can observe of a model: its quantized linear modules, and all its
  registered tensors, both in the order of \<^verbatim>\<open>named_modules()\<close>.
\<close>

definition quant_buffers :: "Autograd4bitQuantLinear \<Rightarrow> tensor list" where
  "quant_buffers q =
    (case zeros q of None \<Rightarrow> [] | Some t \<Rightarrow> [t]) @
    (case qzeros q of None \<Rightarrow> [] | Some t \<Rightarrow> [t]) @ [scales q] @
    (case g_idx q of None \<Rightarrow> [] | Some t \<Rightarrow> [t]) @ [bias q, qweight q]"

fun quant_modules :: "module \<Rightarrow> Autograd4bitQuantLinear list"
  and quant_modules_attrs :: "(string \<times> attr) list \<Rightarrow> Autograd4bitQuantLinear list" where
  "quant_modules (QuantLinear q) = [q]"
| "quant_modules (Module as) = quant_modules_attrs as"
| "quant_modules_attrs [] = []"
| "quant_modules_attrs ((a, Sub m) # rest) = quant_modules m @ quant_modules_attrs rest"
| "quant_modules_attrs ((a, Buf t) # rest) = quant_modules_attrs rest"
| "quant_modules_attrs ((a, Val x) # rest) = quant_modules_attrs rest"

fun buffers :: "module \<Rightarrow> tensor list"
  and buffers_attrs :: "(string \<times> attr) list \<Rightarrow> tensor list" where
  "buffers (QuantLinear q) = quant_buffers q"
| "buffers (Module as) = buffers_attrs as"
| "buffers_attrs [] = []"
| "buffers_attrs ((a, Sub m) # rest) = buffers m @ buffers_attrs rest"
| "buffers_attrs ((a, Buf t) # rest) = t # buffers_attrs rest"
| "buffers_attrs ((a, Val x) # rest) = buffers_attrs rest"

section \<open>Concrete inputs\<close>

text \<open>
  A runtime whose kernels answer with a one-element tensor that names the kernel and its
  \<^verbatim>\<open>transpose\<close> flag, and a small host model: a decoder layer with two linear
  projections and an output head.
\<close>

definition fixture_tensor :: "dtype \<Rightarrow> int list \<Rightarrow> tensor" where
  "fixture_tensor d xs = \<lparr> dtype = d, shape = [length xs], elems = Data xs,
                           requires_grad = False \<rparr>"

definition fixture_runtime :: runtime where
  "fixture_runtime =
    \<lparr> mm4b_matmul4bit_v1_recons =
        (\<lambda>x qw sc z tr. Inr (fixture_tensor Float16 [if tr then 11 else 10])),
      mm4b_matmul4bit_v2_recons =
        (\<lambda>x qw sc z g tr. Inr (fixture_tensor Float16 [if tr then 21 else 20])),
      mm4b_matmul2bit_v2_recons =
        (\<lambda>x qw sc z g tr. Inr (fixture_tensor Float16 [if tr then 31 else 30])),
      mm4b_matmul4bit = (\<lambda>x qw sc z g gs. Inr (fixture_tensor Float16 [40])),
      tu_triton_matmul = (\<lambda>x qw sc z g b mq. Inr (fixture_tensor Float16 [50])),
      tu_triton_matmul_transpose = (\<lambda>x qw sc z g b mq. Inr (fixture_tensor Float16 [51])),
      convert = (\<lambda>from_dtype to_dtype v. v),
      iadd = (\<lambda>out b. Inr out) \<rparr>"

definition fixture_quant :: "bool \<Rightarrow> int \<Rightarrow> Autograd4bitQuantLinear" where
  "fixture_quant v1 b =
    \<lparr> in_features = 256, out_features = 256, bits = b, maxq = maxq_of b, groupsize = 256,
      is_v1_model = v1, disable_bias = False,
      zeros = (if v1 then Some (fixture_tensor Float16 [8]) else None),
      scales = fixture_tensor Float16 [1],
      g_idx = (if v1 then None else Some (fixture_tensor Int32 [0])),
      qzeros = (if v1 then None else Some (fixture_tensor Int32 [8])),
      bias = fixture_tensor Float16 [0],
      qweight = fixture_tensor Int32 [5] \<rparr>"

definition fixture_linear :: "int \<Rightarrow> int \<Rightarrow> module" where
  "fixture_linear fi fo =
    Module [(''bias'', Val NoneV), (''in_features'', Val (IntV fi)),
            (''out_features'', Val (IntV fo)),
            (''weight'', Buf \<lparr> dtype = Float32, shape = [nat fo, nat fi], elems = Uninit,
                               requires_grad = True \<rparr>)]"

definition fixture_model :: module where
  "fixture_model =
    Module [(''layer'', Sub (Module [(''q_proj'', Sub (fixture_linear 256 512)),
                                     (''training'', Val OtherV),
                                     (''v_proj'', Sub (fixture_linear 256 256))])),
            (''lm_head'', Sub (fixture_linear 256 1000))]"

definition fixture_quant_model :: module where
  "fixture_quant_model =
    Module [(''norm'', Sub (Module [(''weight'', Buf (fixture_tensor Float32 [1, 1]))])),
            (''legacy'', Sub (QuantLinear (fixture_quant True 4))),
            (''grouped'', Sub (QuantLinear (fixture_quant False 4)))]"

definition fixture_names :: "string set" where
  "fixture_names = {''layer.q_proj'', ''layer.v_proj''}"

section \<open>The training configuration\<close>

text \<open>
  C10. Whenever \<^verbatim>\<open>Finetune4bConfig\<close> is constructed with a micro-batch size other than
  zero, the stored \<open>gradient_accumulation_steps\<close> is the floor of \<open>batch_size\<close> divided by
  \<open>mbatch_size\<close>. The two sizes are not checked otherwise: for any batch size and any
  non-zero micro-batch size, of either sign and whether or not one divides the other,
  construction succeeds unless the conversion of \<open>val_set_size\<close> to an integer raises.
\<close>

theorem gradient_accumulation_steps_floor_division:
  assumes "mbs \<noteq> 0"
  shows "(\<forall>cfg. Finetune4bConfig_init ds dt lod lad qcd qm mbs bs ep lr' cl r al dr vss ws ss stl ls ck sk
              = Inr cfg \<longrightarrow>
            gradient_accumulation_steps cfg = bs div mbs \<and> mbatch_size cfg = mbs \<and>
            batch_size cfg = bs) \<and>
         ((\<exists>cfg. Finetune4bConfig_init ds dt lod lad qcd qm mbs bs ep lr' cl r al dr vss ws ss stl ls ck sk
              = Inr cfg) \<longleftrightarrow>
            \<not> (float_gt_one vss \<and> isl (int_of_float vss)))"
  using assms
  by (cases "int_of_float vss")
     (auto simp: Finetune4bConfig_init_def split: sum.splits if_splits)

text \<open>
  At \<open>batch_size = 10\<close> and \<open>mbatch_size = -3\<close>: four steps below zero, as Python's
  \<^verbatim>\<open>10 // -3\<close>.
\<close>

theorem gradient_accumulation_steps_floor_division_witness:
  "(- 3 :: int) \<noteq> 0 \<and>
   (\<exists>cfg. Finetune4bConfig_init ''alpaca.json'' ''alpaca'' ''out'' ''apply'' ''cfg'' ''model.pt''
            (- 3) 10 3 (Finite (1 / 5000)) 256 8 16 (Finite (1 / 20)) (Finite (5 / 2)) 50 50 3 10
            False False = Inr cfg \<and>
          gradient_accumulation_steps cfg = - 4 \<and> val_set_size cfg = PInt 2)"
proof -
  have nz: "(- 3 :: int) \<noteq> 0" by simp
  have fl: "\<lfloor>5 / 2 :: rat\<rfloor> = 2" by code_simp
  from gradient_accumulation_steps_floor_division[OF nz, of "''alpaca.json''" "''alpaca''"
      "''out''" "''apply''" "''cfg''" "''model.pt''" 10 3 "Finite (1 / 5000)" 256 8 16
      "Finite (1 / 20)" "Finite (5 / 2)" 50 50 3 10 False False]
  show ?thesis
    by (simp add: Finetune4bConfig_init_def fl)
qed

section \<open>Gradients of the autograd operators\<close>

text \<open>
  C1. Whenever \<^verbatim>\<open>backward\<close> of an operator returns, it returns seven slots of which the six
  after the activation slot (weight, scales, zeros, group index, bits, maxq) are \<^verbatim>\<open>None\<close>.
  When the activation input requires a gradient, the 4-bit CUDA, the 2-bit CUDA and the
  4-bit Triton operator each return in the activation slot what their transposed kernel
  computes from \<open>grad_output\<close> and the saved weight-side tensors, and raise what the kernel
  raises.
\<close>

theorem backward_gradient_slots:
  "(\<forall>gs. op_backward f R c grad_output = Inr gs \<longrightarrow>
        length gs = 7 \<and> tl gs = [None, None, None, None, None, None]) \<and>
   (saved_tensors c = Some (qw, sc, z, gi) \<and> needs_input_grad c = True # ns \<longrightarrow>
      Cuda4bit_backward R c grad_output =
        map_sum id (\<lambda>grad. [Some grad, None, None, None, None, None, None])
          (case gi of
             None \<Rightarrow> mm4b_matmul4bit_v1_recons R grad_output qw sc z True
           | Some g \<Rightarrow> mm4b_matmul4bit_v2_recons R grad_output qw sc z g True) \<and>
      Cuda2bit_backward R c grad_output =
        map_sum id (\<lambda>grad. [Some grad, None, None, None, None, None, None])
          (mm4b_matmul2bit_v2_recons R grad_output qw sc z gi True) \<and>
      (ctx_bits c = Some b \<and> ctx_maxq c = Some mq \<longrightarrow>
         Triton4bit_backward R c grad_output =
           map_sum id (\<lambda>grad. [Some grad, None, None, None, None, None, None])
             (tu_triton_matmul_transpose R grad_output qw sc z gi b mq)))"
proof -
  have slots: "length gs = 7 \<and> tl gs = [None, None, None, None, None, None]"
    if "op_backward f R c grad_output = Inr gs" for gs
    using that
    by (cases f)
       (auto simp: NotImplemented_backward_def Cuda4bit_backward_def Cuda2bit_backward_def
          Triton4bit_backward_def
          split: option.splits list.splits sum.splits if_splits prod.splits)
  have grad: "Cuda4bit_backward R c grad_output =
        map_sum id (\<lambda>grad. [Some grad, None, None, None, None, None, None])
          (case gi of
             None \<Rightarrow> mm4b_matmul4bit_v1_recons R grad_output qw sc z True
           | Some g \<Rightarrow> mm4b_matmul4bit_v2_recons R grad_output qw sc z g True) \<and>
      Cuda2bit_backward R c grad_output =
        map_sum id (\<lambda>grad. [Some grad, None, None, None, None, None, None])
          (mm4b_matmul2bit_v2_recons R grad_output qw sc z gi True) \<and>
      (ctx_bits c = Some b \<and> ctx_maxq c = Some mq \<longrightarrow>
         Triton4bit_backward R c grad_output =
           map_sum id (\<lambda>grad. [Some grad, None, None, None, None, None, None])
             (tu_triton_matmul_transpose R grad_output qw sc z gi b mq))"
    if "saved_tensors c = Some (qw, sc, z, gi)" "needs_input_grad c = True # ns"
    using that
    by (auto simp: Cuda4bit_backward_def Cuda2bit_backward_def Triton4bit_backward_def
          split: option.splits sum.splits)
  from slots grad show ?thesis by blast
qed

text \<open>
  One backward call per operator, on contexts as their \<^verbatim>\<open>forward\<close> leaves them, with the
  activation input requiring a gradient.
\<close>

theorem backward_gradient_slots_witness:
  "op_backward AutogradMatmul4bitCuda fixture_runtime
      \<lparr> needs_input_grad = [True, False, False, False, False, False, False],
        saved_tensors = Some (fixture_tensor Int32 [1], fixture_tensor Float16 [2],
                              fixture_tensor Float16 [3], None),
        ctx_bits = None, ctx_maxq = None \<rparr>
      (fixture_tensor Float16 [7])
    = Inr [Some (fixture_tensor Float16 [11]), None, None, None, None, None, None] \<and>
   op_backward AutogradMatmul2bitCuda fixture_runtime
      \<lparr> needs_input_grad = [True, False, False, False, False, False, False],
        saved_tensors = Some (fixture_tensor Int32 [1], fixture_tensor Float16 [2],
                              fixture_tensor Int32 [3], Some (fixture_tensor Int32 [0])),
        ctx_bits = None, ctx_maxq = None \<rparr>
      (fixture_tensor Float16 [7])
    = Inr [Some (fixture_tensor Float16 [31]), None, None, None, None, None, None] \<and>
   op_backward AutogradMatmul4bitTriton fixture_runtime
      \<lparr> needs_input_grad = [True, False, False, False, False, False, False],
        saved_tensors = Some (fixture_tensor Int32 [1], fixture_tensor Float16 [2],
                              fixture_tensor Int32 [3], Some (fixture_tensor Int32 [0])),
        ctx_bits = Some 4, ctx_maxq = Some (PInt 15) \<rparr>
      (fixture_tensor Float16 [7])
    = Inr [Some (fixture_tensor Float16 [51]), None, None, None, None, None, None]"
  using
    backward_gradient_slots[of AutogradMatmul4bitCuda fixture_runtime
      "\<lparr> needs_input_grad = [True, False, False, False, False, False, False],
        saved_tensors = Some (fixture_tensor Int32 [1], fixture_tensor Float16 [2],
                              fixture_tensor Float16 [3], None),
        ctx_bits = None, ctx_maxq = None \<rparr>"
      "fixture_tensor Float16 [7]" "fixture_tensor Int32 [1]" "fixture_tensor Float16 [2]"
      "fixture_tensor Float16 [3]" None "[False, False, False, False, False, False]" 4
      "PInt 15"]
    backward_gradient_slots[of AutogradMatmul4bitTriton fixture_runtime
      "\<lparr> needs_input_grad = [True, False, False, False, False, False, False],
        saved_tensors = Some (fixture_tensor Int32 [1], fixture_tensor Float16 [2],
                              fixture_tensor Int32 [3], Some (fixture_tensor Int32 [0])),
        ctx_bits = Some 4, ctx_maxq = Some (PInt 15) \<rparr>"
      "fixture_tensor Float16 [7]" "fixture_tensor Int32 [1]" "fixture_tensor Float16 [2]"
      "fixture_tensor Int32 [3]" "Some (fixture_tensor Int32 [0])"
      "[False, False, False, False, False, False]" 4 "PInt 15"]
  by (simp add: fixture_runtime_def Cuda2bit_backward_def)

text \<open>
  C2. When the activation input does not require a gradient, the Triton operator returns
  seven \<^verbatim>\<open>None\<close>s, as its \<^verbatim>\<open>grad_input = None\<close> provides. The two CUDA operators have no
  such line: their \<^verbatim>\<open>return\<close> reads the unassigned local \<^verbatim>\<open>grad\<close> and raises.
\<close>

theorem cuda_backward_without_input_grad:
  "Cuda4bit_backward R (c\<lparr> saved_tensors := Some s, needs_input_grad := False # ns \<rparr>)
      grad_output = Inl (UnboundLocalError ''grad'') \<and>
   Cuda2bit_backward R (c\<lparr> saved_tensors := Some s, needs_input_grad := False # ns \<rparr>)
      grad_output = Inl (UnboundLocalError ''grad'') \<and>
   Triton4bit_backward R
      (c\<lparr> saved_tensors := Some s, needs_input_grad := False # ns, ctx_bits := Some b,
          ctx_maxq := Some mq \<rparr>) grad_output
    = Inr [None, None, None, None, None, None, None]"
  by (cases s) (simp add: Cuda4bit_backward_def Cuda2bit_backward_def Triton4bit_backward_def)

section \<open>Backend selection and dispatch\<close>

lemma switch_backend_to_frame:
  "has_Cuda (snd (switch_backend_to n G)) = has_Cuda G \<and>
   has_Triton (snd (switch_backend_to n G)) = has_Triton G \<and>
   gptq_backend_loaded (snd (switch_backend_to n G)) = gptq_backend_loaded G \<and>
   triton_backend_loaded (snd (switch_backend_to n G)) = triton_backend_loaded G \<and>
   AutogradMatmul2bit (snd (switch_backend_to n G)) = AutogradMatmul2bit G"
  by (simp add: switch_backend_to_def)

lemma switch_all_frame:
  "has_Cuda (switch_all ns G) = has_Cuda G \<and>
   has_Triton (switch_all ns G) = has_Triton G \<and>
   AutogradMatmul2bit (switch_all ns G) = AutogradMatmul2bit G"
  by (induction ns arbitrary: G) (simp_all add: switch_backend_to_frame)

lemma load_module_flags:
  "has_Cuda (load_module a b) = a \<and> has_Triton (load_module a b) = b \<and>
   AutogradMatmul2bit (load_module a b) =
     (if a then AutogradMatmul2bitCuda else AutogradMatmul4bitNotImplemented)"
  by (simp add: load_module_def Let_def is_gptq_backend_available_def
      is_triton_backend_available_def)

lemma forward_inference_4bit:
  assumes "bits self = 4" "\<not> grad_enabled E"
  shows "forward R G E self x =
    (case zero_point_buffer self of
       Inl e \<Rightarrow> Inl e
     | Inr z \<Rightarrow>
         (case matmul4bit_with_backend R G x (qweight self) (scales self) z (g_idx self)
                 (bits self) (maxq self) (groupsize self) of
            Inl e \<Rightarrow> Inl e
          | Inr out \<Rightarrow> add_bias R self (out, None)))"
  using assms by (simp add: forward_def split: sum.splits)

text \<open>
  C5. In any state reached from import by backend switches: \<^verbatim>\<open>switch_backend_to\<close> raises
  the \<^verbatim>\<open>ValueError\<close> of the missing backend when \<^verbatim>\<open>'cuda'\<close> or \<^verbatim>\<open>'triton'\<close> is asked for
  and its import failed at load time, and \<^verbatim>\<open>ValueError('Backend not supported.')\<close> for
  every other name, leaving the globals as they were. When the backend is available the
  call returns, \<open>backend\<close> holds the name at once, and a 4-bit forward call with gradient
  mode off runs that backend's kernel (for Triton behind the assertion that the zero-point
  buffer is \<open>Int32\<close>), then adds the bias.
\<close>

theorem switch_backend_to_selects:
  assumes "G = switch_all ns (load_module import_mm4b import_tu)"
  shows
   "(\<not> import_mm4b \<longrightarrow>
       switch_backend_to ''cuda'' G =
         (Some (ValueError ''quant_cuda not found. Please reinstall with pip install .''), G)) \<and>
    (\<not> import_tu \<longrightarrow>
       switch_backend_to ''triton'' G =
         (Some (ValueError ''Triton not found. Please install triton''), G)) \<and>
    (n \<noteq> ''cuda'' \<and> n \<noteq> ''triton'' \<longrightarrow>
       switch_backend_to n G = (Some (ValueError ''Backend not supported.''), G)) \<and>
    (import_mm4b \<longrightarrow>
       fst (switch_backend_to ''cuda'' G) = None \<and>
       backend (snd (switch_backend_to ''cuda'' G)) = Some ''cuda'' \<and>
       (bits self = 4 \<and> \<not> grad_enabled E \<longrightarrow>
          forward R (snd (switch_backend_to ''cuda'' G)) E self x =
            (case zero_point_buffer self of
               Inl e \<Rightarrow> Inl e
             | Inr z \<Rightarrow>
                 (case mm4b_matmul4bit R x (qweight self) (scales self) z (g_idx self)
                         (groupsize self) of
                    Inl e \<Rightarrow> Inl e
                  | Inr out \<Rightarrow> add_bias R self (out, None))))) \<and>
    (import_tu \<longrightarrow>
       fst (switch_backend_to ''triton'' G) = None \<and>
       backend (snd (switch_backend_to ''triton'' G)) = Some ''triton'' \<and>
       (bits self = 4 \<and> \<not> grad_enabled E \<longrightarrow>
          forward R (snd (switch_backend_to ''triton'' G)) E self x =
            (case zero_point_buffer self of
               Inl e \<Rightarrow> Inl e
             | Inr z \<Rightarrow>
                 if dtype z \<noteq> Int32 then Inl AssertionError
                 else
                   (case tu_triton_matmul R x (qweight self) (scales self) z (g_idx self)
                           (bits self) (maxq self) of
                      Inl e \<Rightarrow> Inl e
                    | Inr out \<Rightarrow> add_bias R self (out, None)))))"
proof -
  have c: "has_Cuda G = import_mm4b" and t: "has_Triton G = import_tu"
    using assms by (simp_all add: switch_all_frame load_module_flags)
  have fail_cuda: "switch_backend_to ''cuda'' G =
      (Some (ValueError ''quant_cuda not found. Please reinstall with pip install .''), G)"
    if "\<not> import_mm4b"
    using that c by (simp add: switch_backend_to_def is_gptq_backend_available_def)
  have fail_triton: "switch_backend_to ''triton'' G =
      (Some (ValueError ''Triton not found. Please install triton''), G)"
    if "\<not> import_tu"
    using that t by (simp add: switch_backend_to_def is_triton_backend_available_def)
  have fail_other: "switch_backend_to n G = (Some (ValueError ''Backend not supported.''), G)"
    if "n \<noteq> ''cuda'' \<and> n \<noteq> ''triton''"
    using that by (simp add: switch_backend_to_def)
  have ok_cuda: "switch_backend_to ''cuda'' G =
      (None, G\<lparr> AutogradMatmul4bit := AutogradMatmul4bitCuda, backend := Some ''cuda'' \<rparr>)"
    if "import_mm4b"
    using that c by (simp add: switch_backend_to_def is_gptq_backend_available_def)
  have ok_triton: "switch_backend_to ''triton'' G =
      (None, G\<lparr> AutogradMatmul4bit := AutogradMatmul4bitTriton, backend := Some ''triton'' \<rparr>)"
    if "import_tu"
    using that t by (simp add: switch_backend_to_def is_triton_backend_available_def)
  have route_cuda: "forward R (snd (switch_backend_to ''cuda'' G)) E self x =
            (case zero_point_buffer self of
               Inl e \<Rightarrow> Inl e
             | Inr z \<Rightarrow>
                 (case mm4b_matmul4bit R x (qweight self) (scales self) z (g_idx self)
                         (groupsize self) of
                    Inl e \<Rightarrow> Inl e
                  | Inr out \<Rightarrow> add_bias R self (out, None)))"
    if "import_mm4b" "bits self = 4 \<and> \<not> grad_enabled E"
    using that c
    by (simp add: ok_cuda forward_inference_4bit matmul4bit_with_backend_def
        split: sum.splits)
  have route_triton: "forward R (snd (switch_backend_to ''triton'' G)) E self x =
            (case zero_point_buffer self of
               Inl e \<Rightarrow> Inl e
             | Inr z \<Rightarrow>
                 if dtype z \<noteq> Int32 then Inl AssertionError
                 else
                   (case tu_triton_matmul R x (qweight self) (scales self) z (g_idx self)
                           (bits self) (maxq self) of
                      Inl e \<Rightarrow> Inl e
                    | Inr out \<Rightarrow> add_bias R self (out, None)))"
    if "import_tu" "bits self = 4 \<and> \<not> grad_enabled E"
    using that t
    by (simp add: ok_triton forward_inference_4bit matmul4bit_with_backend_def
        split: sum.splits)
  show ?thesis
    using fail_cuda fail_triton fail_other ok_cuda ok_triton route_cuda route_triton
    by simp
qed

text \<open>
  C9. A call of \<^verbatim>\<open>switch_backend_to\<close> changes at most \<open>AutogradMatmul4bit\<close> and \<open>backend\<close>;
  \<open>AutogradMatmul2bit\<close> is the same before and after, whether the call returns or raises.
  After any run of switches it is what the import bound: the 2-bit CUDA operator if
  \<^verbatim>\<open>matmul_utils_4bit\<close> was imported, otherwise the placeholder whose \<^verbatim>\<open>forward\<close> and
  \<^verbatim>\<open>backward\<close> always raise \<^verbatim>\<open>NotImplementedError\<close>.
\<close>

theorem switch_backend_keeps_2bit_operator:
  "AutogradMatmul2bit (snd (switch_backend_to n G)) = AutogradMatmul2bit G \<and>
   (\<exists>f bk. snd (switch_backend_to n G) = G\<lparr> AutogradMatmul4bit := f, backend := bk \<rparr>) \<and>
   AutogradMatmul2bit (switch_all ns (load_module import_mm4b import_tu)) =
     (if import_mm4b then AutogradMatmul2bitCuda else AutogradMatmul4bitNotImplemented) \<and>
   op_forward AutogradMatmul4bitNotImplemented R c x qw sc z gi b mq = Inl NotImplementedError \<and>
   op_backward AutogradMatmul4bitNotImplemented R c grad_output = Inl NotImplementedError"
proof -
  have "\<exists>f bk. snd (switch_backend_to n G) = G\<lparr> AutogradMatmul4bit := f, backend := bk \<rparr>"
  proof (cases "fst (switch_backend_to n G)")
    case None
    then show ?thesis
      by (auto simp: switch_backend_to_def split: if_splits)
  next
    case (Some e)
    then have "snd (switch_backend_to n G) = G"
      by (auto simp: switch_backend_to_def split: if_splits)
    then have "snd (switch_backend_to n G) =
        G\<lparr> AutogradMatmul4bit := AutogradMatmul4bit G, backend := backend G \<rparr>"
      by simp
    then show ?thesis by blast
  qed
  then show ?thesis
    by (simp add: switch_backend_to_frame switch_all_frame load_module_flags
        NotImplemented_forward_def NotImplemented_backward_def)
qed

text \<open>
  C4. A forward call on a module with \<open>bits = 4\<close> reads \<open>zeros\<close> when \<open>is_v1_model\<close> holds and
  \<open>qzeros\<close> otherwise; with gradient mode on it applies the operator currently bound to
  \<open>AutogradMatmul4bit\<close> to the activation, \<open>qweight\<close>, \<open>scales\<close>, that buffer, \<open>g_idx\<close>, \<open>bits\<close>
  and \<open>maxq\<close>; with gradient mode off it calls \<open>matmul4bit_with_backend\<close> on the same
  arguments and the group size, and the output carries no graph node.
\<close>

theorem forward_4bit_dispatch:
  assumes "bits self = 4"
  shows "forward R G E self x =
     (case (if is_v1_model self
            then (case zeros self of None \<Rightarrow> Inl (AttributeError ''zeros'') | Some z \<Rightarrow> Inr z)
            else (case qzeros self of None \<Rightarrow> Inl (AttributeError ''qzeros'')
                  | Some z \<Rightarrow> Inr z)) of
        Inl e \<Rightarrow> Inl e
      | Inr z \<Rightarrow>
          (case (if grad_enabled E
                 then autograd_apply R E (AutogradMatmul4bit G) x (qweight self) (scales self)
                        z (g_idx self) 4 (maxq self)
                 else map_sum id (\<lambda>out. (out, None))
                        (matmul4bit_with_backend R G x (qweight self) (scales self) z
                           (g_idx self) 4 (maxq self) (groupsize self))) of
             Inl e \<Rightarrow> Inl e
           | Inr r \<Rightarrow> add_bias R self r)) \<and>
     (\<not> grad_enabled E \<longrightarrow>
        (\<forall>out node. forward R G E self x = Inr (out, node) \<longrightarrow> node = None))"
proof -
  have eq: "forward R G E self x =
     (case (if is_v1_model self
            then (case zeros self of None \<Rightarrow> Inl (AttributeError ''zeros'') | Some z \<Rightarrow> Inr z)
            else (case qzeros self of None \<Rightarrow> Inl (AttributeError ''qzeros'')
                  | Some z \<Rightarrow> Inr z)) of
        Inl e \<Rightarrow> Inl e
      | Inr z \<Rightarrow>
          (case (if grad_enabled E
                 then autograd_apply R E (AutogradMatmul4bit G) x (qweight self) (scales self)
                        z (g_idx self) 4 (maxq self)
                 else map_sum id (\<lambda>out. (out, None))
                        (matmul4bit_with_backend R G x (qweight self) (scales self) z
                           (g_idx self) 4 (maxq self) (groupsize self))) of
             Inl e \<Rightarrow> Inl e
           | Inr r \<Rightarrow> add_bias R self r))"
    using assms
    by (simp add: forward_def zero_point_buffer_def split: sum.splits option.splits)
  have "node = None" if "\<not> grad_enabled E" "forward R G E self x = Inr (out, node)"
    for out node
    using that assms
    by (auto simp: forward_inference_4bit add_bias_def split: sum.splits if_splits)
  with eq show ?thesis by blast
qed


text \<open>
  With only Triton imported, \<^verbatim>\<open>'cuda'\<close> and \<^verbatim>\<open>'tpu'\<close> are refused; with both imported,
  after a switch to Triton and back to CUDA the inference path runs \<^verbatim>\<open>mm4b.matmul4bit\<close>.
\<close>

theorem switch_backend_to_selects_witness:
  "switch_backend_to ''cuda'' (load_module False True) =
     (Some (ValueError ''quant_cuda not found. Please reinstall with pip install .''),
      load_module False True) \<and>
   switch_backend_to ''tpu'' (load_module False True) =
     (Some (ValueError ''Backend not supported.''), load_module False True) \<and>
   backend (switch_all [''triton''] (load_module True True)) = Some ''triton'' \<and>
   backend (snd (switch_backend_to ''cuda'' (switch_all [''triton''] (load_module True True))))
     = Some ''cuda'' \<and>
   forward fixture_runtime
     (snd (switch_backend_to ''cuda'' (switch_all [''triton''] (load_module True True))))
     \<lparr> grad_enabled = False, autocast_enabled = False \<rparr> (fixture_quant False 4)
     (fixture_tensor Float16 [1]) = Inr (fixture_tensor Float16 [40], None)"
  using
    switch_backend_to_selects[of "load_module False True" "[]" False True "''tpu''"]
    switch_backend_to_selects[of "switch_all [''triton''] (load_module True True)"
      "[''triton'']" True True "''tpu''" "fixture_quant False 4"
      "\<lparr> grad_enabled = False, autocast_enabled = False \<rparr>" fixture_runtime
      "fixture_tensor Float16 [1]"]
  by (simp add: fixture_quant_def fixture_runtime_def zero_point_buffer_def add_bias_def
      switch_backend_to_def load_module_def is_gptq_backend_available_def
      is_triton_backend_available_def)

text \<open>
  Three switches after an import of both backends, and one after an import of Triton alone.
\<close>

theorem switch_backend_keeps_2bit_operator_witness:
  "AutogradMatmul2bit (switch_all [''triton'', ''cuda'', ''tpu''] (load_module True True))
     = AutogradMatmul2bitCuda \<and>
   AutogradMatmul4bit (snd (switch_backend_to ''triton'' (load_module True True)))
     = AutogradMatmul4bitTriton \<and>
   AutogradMatmul2bit (snd (switch_backend_to ''triton'' (load_module True True)))
     = AutogradMatmul2bitCuda \<and>
   AutogradMatmul2bit (switch_all [''triton''] (load_module False True))
     = AutogradMatmul4bitNotImplemented"
  using
    switch_backend_keeps_2bit_operator[of "''triton''" "load_module True True"
      "[''triton'', ''cuda'', ''tpu'']" True True]
    switch_backend_keeps_2bit_operator[of "''triton''" "load_module True True"
      "[''triton'']" False True]
  by (simp add: switch_backend_to_def load_module_def is_gptq_backend_available_def
      is_triton_backend_available_def)

text \<open>
  A legacy-layout module under the CUDA operator with gradient mode on, and a grouped
  module on the Triton inference path.
\<close>

theorem forward_4bit_dispatch_witness:
  "bits (fixture_quant True 4) = 4 \<and>
   (\<exists>c. forward fixture_runtime (load_module True False)
          \<lparr> grad_enabled = True, autocast_enabled = False \<rparr> (fixture_quant True 4)
          ((fixture_tensor Float16 [1])\<lparr> requires_grad := True \<rparr>)
        = Inr ((fixture_tensor Float16 [10])\<lparr> requires_grad := True \<rparr>,
               Some (AutogradMatmul4bitCuda, c)) \<and>
        saved_tensors c =
          Some (fixture_tensor Int32 [5], fixture_tensor Float16 [1],
                fixture_tensor Float16 [8], None)) \<and>
   forward fixture_runtime (load_module False True)
     \<lparr> grad_enabled = False, autocast_enabled = False \<rparr> (fixture_quant False 4)
     (fixture_tensor Float16 [1]) = Inr (fixture_tensor Float16 [50], None)"
  using
    forward_4bit_dispatch[of "fixture_quant True 4" fixture_runtime "load_module True False"
      "\<lparr> grad_enabled = True, autocast_enabled = False \<rparr>"
      "(fixture_tensor Float16 [1])\<lparr> requires_grad := True \<rparr>"]
    forward_4bit_dispatch[of "fixture_quant False 4" fixture_runtime "load_module False True"
      "\<lparr> grad_enabled = False, autocast_enabled = False \<rparr>" "fixture_tensor Float16 [1]"]
  by (simp add: fixture_quant_def fixture_runtime_def fixture_tensor_def add_bias_def
      load_module_def is_gptq_backend_available_def is_triton_backend_available_def
      autograd_apply_def cast_input_def Cuda4bit_forward_def clone_def
      matmul4bit_with_backend_def Let_def)

section \<open>Construction of the quantized linear module\<close>

lemma init_v1_eq:
  "Autograd4bitQuantLinear_init i k g True b =
    (if k < 0 \<or> i div 256 * (b * 8) < 0 then Inl RuntimeError
     else Inr \<lparr> in_features = i, out_features = k, bits = b, maxq = maxq_of b,
           groupsize = (if g \<noteq> - 1 then g else i), is_v1_model = True,
           disable_bias = False,
           zeros = Some \<lparr> dtype = Float32, shape = [nat k, 1], elems = Uninit,
                          requires_grad = False \<rparr>,
           scales = \<lparr> dtype = Float32, shape = [nat k, 1], elems = Uninit,
                      requires_grad = False \<rparr>,
           g_idx = None, qzeros = None,
           bias = \<lparr> dtype = Float32, shape = [nat k], elems = Uninit,
                    requires_grad = False \<rparr>,
           qweight = \<lparr> dtype = Int32, shape = [nat (i div 256 * (b * 8)), nat k],
                       elems = Uninit, requires_grad = False \<rparr> \<rparr>)"
  by (simp add: Autograd4bitQuantLinear_init_def Let_def torch_empty_def)

lemma init_v2_eq:
  "Autograd4bitQuantLinear_init i k g False b =
    (let gs = (if g \<noteq> - 1 then g else i) in
     if gs = 0 then Inl ZeroDivisionError
     else if - ((- i) div gs) < 0 \<or> k div 256 * (b * 8) < 0 \<or> k < 0 \<or>
             list_ex (\<lambda>v. v < - (2 ^ 31) \<or> 2 ^ 31 \<le> v) (group_index i gs) \<or>
             i div 256 * (b * 8) < 0
     then Inl RuntimeError
     else Inr \<lparr> in_features = i, out_features = k, bits = b, maxq = maxq_of b,
            groupsize = gs, is_v1_model = False, disable_bias = False,
            zeros = None,
            scales = \<lparr> dtype = Float32, shape = [nat (- ((- i) div gs)), nat k],
                       elems = Uninit, requires_grad = False \<rparr>,
            g_idx = Some \<lparr> dtype = Int32, shape = [length (group_index i gs)],
                            elems = Data (group_index i gs), requires_grad = False \<rparr>,
            qzeros = Some \<lparr> dtype = Int32,
                             shape = [nat (- ((- i) div gs)), nat (k div 256 * (b * 8))],
                             elems = Uninit, requires_grad = False \<rparr>,
            bias = \<lparr> dtype = Float32, shape = [nat k], elems = Uninit,
                     requires_grad = False \<rparr>,
            qweight = \<lparr> dtype = Int32, shape = [nat (i div 256 * (b * 8)), nat k],
                        elems = Uninit, requires_grad = False \<rparr> \<rparr>)"
  by (simp add: Autograd4bitQuantLinear_init_def Let_def torch_empty_def
      torch_tensor_int32_def ceil_div_def)


lemma init_fields:
  assumes "Autograd4bitQuantLinear_init i k g v b = Inr m"
  shows "in_features m = i \<and> out_features m = k \<and> bits m = b \<and> is_v1_model m = v"
proof (cases v)
  case True
  with assms show ?thesis by (auto simp: init_v1_eq split: if_splits)
next
  case False
  with assms show ?thesis by (auto simp: init_v2_eq Let_def split: if_splits)
qed

lemma floor_mult_le:
  fixes a gs :: int
  assumes "0 < gs"
  shows "a div gs * gs \<le> a"
proof -
  have "a div gs * gs + a mod gs = a" by simp
  moreover have "0 \<le> a mod gs" using assms by simp
  ultimately show ?thesis by linarith
qed

lemma group_below_ceiling:
  fixes i gs :: int
  assumes "0 < gs" "int j < i"
  shows "0 \<le> int j div gs \<and> int j div gs \<le> - ((- i) div gs) - 1"
proof -
  have "(- i) div gs * gs \<le> - i" using assms(1) by (rule floor_mult_le)
  then have up: "int j < (- ((- i) div gs)) * gs" using assms(2) by simp
  have "int j div gs < - ((- i) div gs)"
  proof (rule ccontr)
    assume "\<not> int j div gs < - ((- i) div gs)"
    then have le: "- ((- i) div gs) \<le> int j div gs" by simp
    have "(- ((- i) div gs)) * gs \<le> int j div gs * gs"
      by (rule mult_right_mono[OF le]) (use assms(1) in simp)
    also have "\<dots> \<le> int j" using assms(1) by (rule floor_mult_le)
    finally show False using up by simp
  qed
  moreover have "0 \<le> int j div gs"
    using assms(1) by (simp add: pos_imp_zdiv_nonneg_iff)
  ultimately show ?thesis by simp
qed

lemma group_index_int32:
  assumes "0 < gs" "i \<le> 2 ^ 31"
  shows "\<not> list_ex (\<lambda>v. v < - (2 ^ 31) \<or> 2 ^ 31 \<le> v) (group_index i gs)"
proof -
  have "0 \<le> int j div gs \<and> int j div gs < 2 ^ 31" if "j < nat i" for j
  proof -
    from that have ji: "int j < i" by simp
    have "int j div gs * gs \<le> int j" using assms(1) by (rule floor_mult_le)
    moreover have "int j div gs * 1 \<le> int j div gs * gs"
      using assms(1) group_below_ceiling[OF assms(1) ji] by (intro mult_left_mono) simp_all
    ultimately have "int j div gs \<le> int j" by simp
    with ji assms(2) group_below_ceiling[OF assms(1) ji] show ?thesis by simp
  qed
  then show ?thesis
    by (auto simp: list_ex_iff group_index_def not_less not_le) fastforce+
qed



text \<open>
  C8. A module constructed with \<open>is_v1_model = False\<close>, from a non-negative \<open>in_features\<close>
  and a group size that is \<open>-1\<close> or positive, stores as group size \<open>in_features\<close> in place
  of \<open>-1\<close>, and its \<open>g_idx\<close> is a 32-bit integer vector of length \<open>in_features\<close> whose entry
  \<open>j\<close> is \<open>j // groupsize\<close>; all entries lie between \<open>0\<close> and
  \<open>ceil(in_features / groupsize) - 1\<close>.
\<close>

theorem group_index_of_grouped_module:
  assumes "Autograd4bitQuantLinear_init i k g False b = Inr m"
    and "0 \<le> i" and "g = - 1 \<or> 0 < g"
  shows "groupsize m = (if g = - 1 then i else g) \<and> 0 < groupsize m \<and>
    (\<exists>vs. g_idx m = Some \<lparr> dtype = Int32, shape = [nat i], elems = Data vs,
                            requires_grad = False \<rparr> \<and>
          int (length vs) = i \<and>
          (\<forall>j<length vs. vs ! j = int j div groupsize m) \<and>
          (\<forall>v\<in>set vs. 0 \<le> v \<and> v \<le> - ((- i) div groupsize m) - 1))"
proof -
  define gs where "gs = (if g \<noteq> - 1 then g else i)"
  from assms(1) have nz: "gs \<noteq> 0"
    and gm: "groupsize m = gs"
    and gi: "g_idx m = Some \<lparr> dtype = Int32, shape = [length (group_index i gs)],
                            elems = Data (group_index i gs), requires_grad = False \<rparr>"
    by (auto simp: init_v2_eq Let_def gs_def split: if_splits)
  from nz assms(2,3) have pos: "0 < gs" by (auto simp: gs_def)
  have len: "length (group_index i gs) = nat i" by (simp add: group_index_def)
  have nth: "group_index i gs ! j = int j div gs" if "j < nat i" for j
    using that by (simp add: group_index_def)
  have rng: "0 \<le> v \<and> v \<le> - ((- i) div gs) - 1" if "v \<in> set (group_index i gs)" for v
  proof -
    from that obtain j where "j < nat i" "v = int j div gs"
      by (auto simp: group_index_def)
    then show ?thesis using group_below_ceiling[OF pos, of j i] by simp
  qed
  show ?thesis
    using gm pos gi len nth rng assms(2) by (auto simp: gs_def)
qed

text \<open>
  At \<open>in_features = 512\<close> and group size 128: 512 entries, from group 0 to group 3.
\<close>

theorem group_index_of_grouped_module_witness:
  "\<exists>m vs. Autograd4bitQuantLinear_init 512 256 128 False 4 = Inr m \<and>
      groupsize m = 128 \<and>
      g_idx m = Some \<lparr> dtype = Int32, shape = [512], elems = Data vs,
                        requires_grad = False \<rparr> \<and>
      length vs = 512 \<and> vs ! 0 = 0 \<and> vs ! 127 = 0 \<and> vs ! 128 = 1 \<and> vs ! 511 = 3 \<and>
      (\<forall>v\<in>set vs. 0 \<le> v \<and> v \<le> 3)"
proof -
  have g: "\<not> list_ex (\<lambda>v. v < - (2 ^ 31) \<or> 2 ^ 31 \<le> v) (group_index 512 128)"
    by (rule group_index_int32) simp_all
  then obtain m where m: "Autograd4bitQuantLinear_init 512 256 128 False 4 = Inr m"
    by (simp add: init_v2_eq)
  from group_index_of_grouped_module[OF m]
  have gs: "groupsize m = 128"
    and "\<exists>vs. g_idx m = Some \<lparr> dtype = Int32, shape = [512], elems = Data vs,
                        requires_grad = False \<rparr> \<and>
          length vs = 512 \<and> (\<forall>j<512. vs ! j = int j div 128) \<and>
          (\<forall>v\<in>set vs. 0 \<le> v \<and> v < 4)"
    by auto
  then obtain vs where vs: "g_idx m = Some \<lparr> dtype = Int32, shape = [512], elems = Data vs,
                        requires_grad = False \<rparr>"
    "length vs = 512" "\<forall>j<512. vs ! j = int j div 128"
    "\<forall>v\<in>set vs. 0 \<le> v \<and> v < 4"
    by blast
  from vs(4) have le3: "\<forall>v\<in>set vs. 0 \<le> v \<and> v \<le> 3" by fastforce
  from vs(3) have "vs ! 0 = 0" "vs ! 127 = 0" "vs ! 128 = 1" "vs ! 511 = 3"
    by simp_all
  with m gs vs(1,2) le3 show ?thesis by blast
qed

section \<open>Substitution of quantized layers\<close>

lemma construct_quant_fixed:
  assumes "construct_quant i fo g v b = Inr q"
  shows "construct_quant (IntV (in_features q)) (IntV (out_features q)) g v b = Inr q"
proof -
  from assms obtain i' fo' where "i = IntV i'" "fo = IntV fo'"
    and "Autograd4bitQuantLinear_init i' fo' g v b = Inr q"
    by (auto simp: construct_quant_def split: pyobj.splits)
  then show ?thesis
    using init_fields[of i' fo' g v b q] by (simp add: construct_quant_def)
qed

lemma replace_attrs_settled:
  assumes "set ks \<subseteq> fst ` set r"
    and "\<And>a. a \<in> set ks \<Longrightarrow> dotted_name name a \<in> names \<Longrightarrow>
          \<exists>q. map_of r a = Some (Sub (QuantLinear q)) \<and>
              construct_quant (IntV (in_features q)) (IntV (out_features q)) g v b = Inr q"
  shows "replace_attrs names name g v b ks r = Inr r"
  using assms
proof (induction ks)
  case Nil
  show ?case by simp
next
  case (Cons a rest)
  have rest: "replace_attrs names name g v b rest r = Inr r"
    using Cons by simp
  from Cons.prems(1) have "a \<in> fst ` set r" by simp
  then obtain tmp where tmp: "map_of r a = Some tmp"
    by (metis map_of_eq_None_iff not_None_eq)
  show ?case
  proof (cases "dotted_name name a \<in> names")
    case False
    then show ?thesis using tmp rest by (simp add: getattr_def)
  next
    case True
    then obtain q where q: "map_of r a = Some (Sub (QuantLinear q))"
      "construct_quant (IntV (in_features q)) (IntV (out_features q)) g v b = Inr q"
      using Cons.prems(2)[of a] by auto
    have "setattr r a (Sub (QuantLinear q)) = r"
      using q(1) by (simp add: setattr_def update_triv)
    then show ?thesis using True q rest by (simp add: getattr_def)
  qed
qed

lemma replace_attrs_result:
  assumes "replace_attrs names name g v b ks al = Inr r"
  shows "map fst r = map fst al \<and>
    (\<forall>a\<in>set ks. dotted_name name a \<in> names \<longrightarrow>
       (\<exists>q. map_of r a = Some (Sub (QuantLinear q)) \<and>
            construct_quant (IntV (in_features q)) (IntV (out_features q)) g v b = Inr q)) \<and>
    (\<forall>a. a \<notin> set ks \<or> dotted_name name a \<notin> names \<longrightarrow> map_of r a = map_of al a)"
  using assms
proof (induction ks arbitrary: al)
  case Nil
  then show ?case by simp
next
  case (Cons a rest)
  from Cons.prems obtain tmp where tmp: "map_of al a = Some tmp"
    by (auto simp: getattr_def split: option.splits)
  then have key: "a \<in> fst ` set al"
    by (metis map_of_eq_None_iff option.distinct(1))
  show ?case
  proof (cases "dotted_name name a \<in> names")
    case False
    with Cons.prems tmp have "replace_attrs names name g v b rest al = Inr r"
      by (simp add: getattr_def)
    from Cons.IH[OF this] False show ?thesis by auto
  next
    case True
    with Cons.prems tmp obtain i fo q where
      q: "construct_quant i fo g v b = Inr q"
      and run: "replace_attrs names name g v b rest (setattr al a (Sub (QuantLinear q))) = Inr r"
      by (auto simp: getattr_def split: sum.splits)
    let ?al1 = "setattr al a (Sub (QuantLinear q))"
    note ih = Cons.IH[OF run]
    have keys1: "map fst ?al1 = map fst al"
      using key by (simp add: setattr_def update_keys)
    have m1: "map_of ?al1 = (map_of al)(a \<mapsto> Sub (QuantLinear q))"
      by (simp add: setattr_def update_conv')
    have fixed: "construct_quant (IntV (in_features q)) (IntV (out_features q)) g v b = Inr q"
      using construct_quant_fixed[OF q] .
    have a_ok: "\<exists>q. map_of r a = Some (Sub (QuantLinear q)) \<and>
            construct_quant (IntV (in_features q)) (IntV (out_features q)) g v b = Inr q"
    proof (cases "a \<in> set rest")
      case True
      with ih \<open>dotted_name name a \<in> names\<close> show ?thesis by blast
    next
      case False
      with ih have "map_of r a = map_of ?al1 a" by blast
      with m1 fixed show ?thesis by auto
    qed
    have "map fst r = map fst al" using ih keys1 by simp
    moreover have "\<forall>a'\<in>set (a # rest). dotted_name name a' \<in> names \<longrightarrow>
       (\<exists>q. map_of r a' = Some (Sub (QuantLinear q)) \<and>
            construct_quant (IntV (in_features q)) (IntV (out_features q)) g v b = Inr q)"
      using ih a_ok by auto
    moreover have "\<forall>a'. a' \<notin> set (a # rest) \<or> dotted_name name a' \<notin> names \<longrightarrow>
        map_of r a' = map_of al a'"
    proof (intro allI impI)
      fix a' assume h: "a' \<notin> set (a # rest) \<or> dotted_name name a' \<notin> names"
      then have "a' \<noteq> a" using True by auto
      moreover from h ih have "map_of r a' = map_of ?al1 a'" by auto
      ultimately show "map_of r a' = map_of al a'" using m1 by simp
    qed
    ultimately show ?thesis by blast
  qed
qed

lemma quant_children_result:
  assumes "quant_children as names name g v b = Inr as'"
  shows "map fst as' = map fst as \<and>
    (\<forall>a q. map_of as a = Some (Sub (QuantLinear q)) \<longrightarrow>
       map_of as' a = Some (Sub (QuantLinear q)))"
  using assms
proof (induction as arbitrary: as')
  case Nil
  then show ?case by simp
next
  case (Cons p as)
  obtain k x where p: "p = (k, x)" by (cases p)
  show ?case
  proof (cases x)
    case (Sub child)
    with Cons.prems p obtain child' rest' where
      c: "make_quant_for_4bit_autograd child names (dotted_name name k) g v b = Inr child'"
      and r: "quant_children as names name g v b = Inr rest'"
      and eq: "as' = (k, Sub child') # rest'"
      by (auto split: sum.splits)
    have "\<And>q. child = QuantLinear q \<Longrightarrow> child' = QuantLinear q"
      using c by auto
    with Cons.IH[OF r] show ?thesis by (auto simp: p Sub eq)
  next
    case (Buf t)
    with Cons.prems p obtain rest' where
      r: "quant_children as names name g v b = Inr rest'"
      and eq: "as' = (k, Buf t) # rest'"
      by (auto split: sum.splits)
    with Cons.IH[OF r] show ?thesis by (auto simp: p Buf eq)
  next
    case (Val y)
    with Cons.prems p obtain rest' where
      r: "quant_children as names name g v b = Inr rest'"
      and eq: "as' = (k, Val y) # rest'"
      by (auto split: sum.splits)
    with Cons.IH[OF r] show ?thesis by (auto simp: p Val eq)
  qed
qed

lemma make_quant_twice:
  "(\<forall>m'. make_quant_for_4bit_autograd m names name g v b = Inr m' \<longrightarrow>
        make_quant_for_4bit_autograd m' names name g v b = Inr m')"
  and "(\<forall>as'. quant_children as names name g v b = Inr as' \<longrightarrow>
        quant_children as' names name g v b = Inr as')"
proof (induction m names name g v b and as names name g v b
    rule: make_quant_for_4bit_autograd_quant_children.induct)
  case (1 q names name g v b)
  show ?case by simp
next
  case (2 as names name g v b)
  show ?case
  proof (intro allI impI)
    fix m' assume run: "make_quant_for_4bit_autograd (Module as) names name g v b = Inr m'"
    then obtain r r' where
      r: "replace_attrs names name g v b (map fst as) as = Inr r"
      and r': "quant_children r names name g v b = Inr r'"
      and m': "m' = Module r'"
      by (auto split: sum.splits)
    note res = replace_attrs_result[OF r]
    note ch = quant_children_result[OF r']
    have keys: "map fst r' = map fst as" using res ch by simp
    have "replace_attrs names name g v b (map fst r') r' = Inr r'"
    proof (rule replace_attrs_settled)
      show "set (map fst r') \<subseteq> fst ` set r'" by simp
    next
      fix a assume "a \<in> set (map fst r')" "dotted_name name a \<in> names"
      then have "\<exists>q. map_of r a = Some (Sub (QuantLinear q)) \<and>
            construct_quant (IntV (in_features q)) (IntV (out_features q)) g v b = Inr q"
        using res keys by auto
      then show "\<exists>q. map_of r' a = Some (Sub (QuantLinear q)) \<and>
            construct_quant (IntV (in_features q)) (IntV (out_features q)) g v b = Inr q"
        using ch by blast
    qed
    moreover have "quant_children r' names name g v b = Inr r'"
      using "2"[OF r] r' by blast
    ultimately show "make_quant_for_4bit_autograd m' names name g v b = Inr m'"
      by (simp add: m')
  qed
next
  case (3 names name g v b)
  show ?case by simp
next
  case (4 a child rest names name g v b)
  show ?case
  proof (intro allI impI)
    fix as' assume "quant_children ((a, Sub child) # rest) names name g v b = Inr as'"
    then obtain child' rest' where
      c: "make_quant_for_4bit_autograd child names (dotted_name name a) g v b = Inr child'"
      and r: "quant_children rest names name g v b = Inr rest'"
      and eq: "as' = (a, Sub child') # rest'"
      by (auto split: sum.splits)
    from "4.IH"(1) c have "make_quant_for_4bit_autograd child' names (dotted_name name a) g v b = Inr child'"
      by blast
    moreover from "4.IH"(2)[OF c] r have "quant_children rest' names name g v b = Inr rest'"
      by blast
    ultimately show "quant_children as' names name g v b = Inr as'" by (simp add: eq)
  qed
next
  case (5 a t rest names name g v b)
  then show ?case by (auto split: sum.splits)
next
  case (6 a x rest names name g v b)
  then show ?case by (auto split: sum.splits)
qed





section \<open>Precision conversion of a host model\<close>

lemma dtype_tensor_to: "dtype (tensor_to R d t) = d"
  by (simp add: tensor_to_def)

lemma tensor_to_cast_floating:
  "tensor_to R d (cast_floating R d t) = tensor_to R d t"
  by (simp add: cast_floating_def tensor_to_def)

lemma cast_floating_integer: "\<not> is_floating_point t \<Longrightarrow> cast_floating R d t = t"
  by (simp add: cast_floating_def)

lemma cast_floating_cases:
  "(is_floating_point t \<longrightarrow> cast_floating R d t = tensor_to R d t) \<and>
   (\<not> is_floating_point t \<longrightarrow> cast_floating R d t = t)"
  by (simp add: cast_floating_def)

lemma quant_buffers_converted:
  assumes "convert_quant_buffers R d (module_cast R d (QuantLinear q)) = Inr m'"
  shows "\<exists>q'. m' = QuantLinear q' \<and>
    dtype (scales q') = d \<and> dtype (bias q') = d \<and>
    (is_v1_model q \<longrightarrow> (\<exists>z. zeros q' = Some z \<and> dtype z = d)) \<and>
    (\<not> is_floating_point (qweight q) \<longrightarrow> qweight q' = qweight q) \<and>
    (case qzeros q of None \<Rightarrow> qzeros q' = None
     | Some t \<Rightarrow> \<not> is_floating_point t \<longrightarrow> qzeros q' = Some t) \<and>
    (case g_idx q of None \<Rightarrow> g_idx q' = None
     | Some t \<Rightarrow> \<not> is_floating_point t \<longrightarrow> g_idx q' = Some t) \<and>
    list_all2 (\<lambda>t t'. (is_floating_point t \<longrightarrow> t' = tensor_to R d t) \<and>
                       (\<not> is_floating_point t \<longrightarrow> t' = t \<or> t' = tensor_to R d t))
      (quant_buffers q) (quant_buffers q')"
proof (cases "is_v1_model q")
  case True
  with assms obtain z where z: "zeros q = Some z"
    by (auto split: option.splits)
  with assms True have m': "m' = QuantLinear
      (q\<lparr> zeros := Some (tensor_to R d z), scales := tensor_to R d (scales q),
          g_idx := map_option (cast_floating R d) (g_idx q),
          qzeros := map_option (cast_floating R d) (qzeros q),
          bias := tensor_to R d (bias q),
          qweight := cast_floating R d (qweight q) \<rparr>)"
    by (auto simp: tensor_to_cast_floating)
  show ?thesis
    unfolding m' using True z cast_floating_cases[of _ R d]
    by (auto simp: dtype_tensor_to quant_buffers_def split: option.splits)
next
  case False
  with assms have m': "m' = QuantLinear
      (q\<lparr> zeros := map_option (cast_floating R d) (zeros q),
          scales := tensor_to R d (scales q),
          g_idx := map_option (cast_floating R d) (g_idx q),
          qzeros := map_option (cast_floating R d) (qzeros q),
          bias := tensor_to R d (bias q),
          qweight := cast_floating R d (qweight q) \<rparr>)"
    by (auto simp: tensor_to_cast_floating)
  show ?thesis
    unfolding m' using False cast_floating_cases[of _ R d]
    by (auto simp: dtype_tensor_to quant_buffers_def split: option.splits)
qed


lemma convert_cast_tree:
  "(\<forall>m'. convert_quant_buffers R d (module_cast R d m) = Inr m' \<longrightarrow>
      list_all2 (\<lambda>q q'. dtype (scales q') = d \<and> dtype (bias q') = d \<and>
            (is_v1_model q \<longrightarrow> (\<exists>z. zeros q' = Some z \<and> dtype z = d)) \<and>
            (\<not> is_floating_point (qweight q) \<longrightarrow> qweight q' = qweight q) \<and>
            (case qzeros q of None \<Rightarrow> qzeros q' = None
             | Some t \<Rightarrow> \<not> is_floating_point t \<longrightarrow> qzeros q' = Some t) \<and>
            (case g_idx q of None \<Rightarrow> g_idx q' = None
             | Some t \<Rightarrow> \<not> is_floating_point t \<longrightarrow> g_idx q' = Some t))
        (quant_modules m) (quant_modules m') \<and>
      list_all2 (\<lambda>t t'. (is_floating_point t \<longrightarrow> t' = tensor_to R d t) \<and>
            (\<not> is_floating_point t \<longrightarrow> t' = t \<or> t' = tensor_to R d t))
        (buffers m) (buffers m'))"
  "(\<forall>as'. convert_quant_buffers_attrs R d (attrs_cast R d as) = Inr as' \<longrightarrow>
      list_all2 (\<lambda>q q'. dtype (scales q') = d \<and> dtype (bias q') = d \<and>
            (is_v1_model q \<longrightarrow> (\<exists>z. zeros q' = Some z \<and> dtype z = d)) \<and>
            (\<not> is_floating_point (qweight q) \<longrightarrow> qweight q' = qweight q) \<and>
            (case qzeros q of None \<Rightarrow> qzeros q' = None
             | Some t \<Rightarrow> \<not> is_floating_point t \<longrightarrow> qzeros q' = Some t) \<and>
            (case g_idx q of None \<Rightarrow> g_idx q' = None
             | Some t \<Rightarrow> \<not> is_floating_point t \<longrightarrow> g_idx q' = Some t))
        (quant_modules_attrs as) (quant_modules_attrs as') \<and>
      list_all2 (\<lambda>t t'. (is_floating_point t \<longrightarrow> t' = tensor_to R d t) \<and>
            (\<not> is_floating_point t \<longrightarrow> t' = t \<or> t' = tensor_to R d t))
        (buffers_attrs as) (buffers_attrs as'))"
proof (induction m and as rule: plain_modules_plain_modules_attrs.induct)
  case (1 q)
  show ?case
  proof (intro allI impI)
    fix m' assume "convert_quant_buffers R d (module_cast R d (QuantLinear q)) = Inr m'"
    from quant_buffers_converted[OF this] show
      "list_all2 (\<lambda>q q'. dtype (scales q') = d \<and> dtype (bias q') = d \<and>
            (is_v1_model q \<longrightarrow> (\<exists>z. zeros q' = Some z \<and> dtype z = d)) \<and>
            (\<not> is_floating_point (qweight q) \<longrightarrow> qweight q' = qweight q) \<and>
            (case qzeros q of None \<Rightarrow> qzeros q' = None
             | Some t \<Rightarrow> \<not> is_floating_point t \<longrightarrow> qzeros q' = Some t) \<and>
            (case g_idx q of None \<Rightarrow> g_idx q' = None
             | Some t \<Rightarrow> \<not> is_floating_point t \<longrightarrow> g_idx q' = Some t))
        (quant_modules (QuantLinear q)) (quant_modules m') \<and>
      list_all2 (\<lambda>t t'. (is_floating_point t \<longrightarrow> t' = tensor_to R d t) \<and>
            (\<not> is_floating_point t \<longrightarrow> t' = t \<or> t' = tensor_to R d t))
        (buffers (QuantLinear q)) (buffers m')"
      by auto
  qed
next
  case (2 as)
  then show ?case by (auto split: sum.splits)
next
  case 3
  show ?case by simp
next
  case (4 a m r)
  show ?case
  proof (intro allI impI)
    fix as' assume
      "convert_quant_buffers_attrs R d (attrs_cast R d ((a, Sub m) # r)) = Inr as'"
    then obtain m' r' where m': "convert_quant_buffers R d (module_cast R d m) = Inr m'"
      and r': "convert_quant_buffers_attrs R d (attrs_cast R d r) = Inr r'"
      and eq: "as' = (a, Sub m') # r'"
      by (auto split: sum.splits)
    from "4.IH"(1) m' "4.IH"(2) r' show
      "list_all2 (\<lambda>q q'. dtype (scales q') = d \<and> dtype (bias q') = d \<and>
            (is_v1_model q \<longrightarrow> (\<exists>z. zeros q' = Some z \<and> dtype z = d)) \<and>
            (\<not> is_floating_point (qweight q) \<longrightarrow> qweight q' = qweight q) \<and>
            (case qzeros q of None \<Rightarrow> qzeros q' = None
             | Some t \<Rightarrow> \<not> is_floating_point t \<longrightarrow> qzeros q' = Some t) \<and>
            (case g_idx q of None \<Rightarrow> g_idx q' = None
             | Some t \<Rightarrow> \<not> is_floating_point t \<longrightarrow> g_idx q' = Some t))
        (quant_modules_attrs ((a, Sub m) # r)) (quant_modules_attrs as') \<and>
      list_all2 (\<lambda>t t'. (is_floating_point t \<longrightarrow> t' = tensor_to R d t) \<and>
            (\<not> is_floating_point t \<longrightarrow> t' = t \<or> t' = tensor_to R d t))
        (buffers_attrs ((a, Sub m) # r)) (buffers_attrs as')"
      unfolding eq by (simp add: list_all2_appendI)
  qed
next
  case (5 a t r)
  show ?case
  proof (intro allI impI)
    fix as' assume
      "convert_quant_buffers_attrs R d (attrs_cast R d ((a, Buf t) # r)) = Inr as'"
    then obtain r' where r': "convert_quant_buffers_attrs R d (attrs_cast R d r) = Inr r'"
      and eq: "as' = (a, Buf (cast_floating R d t)) # r'"
      by (auto split: sum.splits)
    from "5.IH" r' cast_floating_cases[of t R d] show
      "list_all2 (\<lambda>q q'. dtype (scales q') = d \<and> dtype (bias q') = d \<and>
            (is_v1_model q \<longrightarrow> (\<exists>z. zeros q' = Some z \<and> dtype z = d)) \<and>
            (\<not> is_floating_point (qweight q) \<longrightarrow> qweight q' = qweight q) \<and>
            (case qzeros q of None \<Rightarrow> qzeros q' = None
             | Some t \<Rightarrow> \<not> is_floating_point t \<longrightarrow> qzeros q' = Some t) \<and>
            (case g_idx q of None \<Rightarrow> g_idx q' = None
             | Some t \<Rightarrow> \<not> is_floating_point t \<longrightarrow> g_idx q' = Some t))
        (quant_modules_attrs ((a, Buf t) # r)) (quant_modules_attrs as') \<and>
      list_all2 (\<lambda>t t'. (is_floating_point t \<longrightarrow> t' = tensor_to R d t) \<and>
            (\<not> is_floating_point t \<longrightarrow> t' = t \<or> t' = tensor_to R d t))
        (buffers_attrs ((a, Buf t) # r)) (buffers_attrs as')"
      unfolding eq by simp
  qed
next
  case (6 a x r)
  then show ?case by (auto split: sum.splits)
qed

lemma convert_cast_succeeds:
  "list_all (\<lambda>q. is_v1_model q \<longrightarrow> zeros q \<noteq> None) (quant_modules m) \<longrightarrow>
     (\<exists>m'. convert_quant_buffers R d (module_cast R d m) = Inr m')"
  "list_all (\<lambda>q. is_v1_model q \<longrightarrow> zeros q \<noteq> None) (quant_modules_attrs as) \<longrightarrow>
     (\<exists>as'. convert_quant_buffers_attrs R d (attrs_cast R d as) = Inr as')"
proof (induction m and as rule: plain_modules_plain_modules_attrs.induct)
  case (1 q)
  show ?case by (cases "zeros q") auto
next
  case (2 as)
  then show ?case by auto
next
  case 3
  show ?case by simp
next
  case (4 a m r)
  then show ?case by auto
next
  case (5 a t r)
  then show ?case by auto
next
  case (6 a x r)
  then show ?case by auto
qed

text \<open>
  C7. When \<^verbatim>\<open>model_to_half\<close> (and likewise \<^verbatim>\<open>model_to_float\<close>) returns, the model has the
  same quantized linear modules and the same registered tensors, in the same order, and
  \<^item> every tensor that was floating-point has been converted to half (single) precision,
    and every other tensor is unchanged, or converted if the loop names it;
  \<^item> in every quantized linear module \<open>scales\<close> and \<open>bias\<close> have the target precision, and
    so has \<open>zeros\<close> in the legacy layout;
  \<^item> \<open>qweight\<close>, \<open>qzeros\<close> and \<open>g_idx\<close> are the same tensors as before wherever they are of
    an integer type, as the constructor makes them.

  Both calls return whenever every legacy-layout module has its \<open>zeros\<close> buffer.
\<close>

theorem model_precision_conversion:
  "(\<forall>model'. model_to_half R model = Inr model' \<longrightarrow>
      list_all2 (\<lambda>q q'. dtype (scales q') = Float16 \<and> dtype (bias q') = Float16 \<and>
            (is_v1_model q \<longrightarrow> (\<exists>z. zeros q' = Some z \<and> dtype z = Float16)) \<and>
            (\<not> is_floating_point (qweight q) \<longrightarrow> qweight q' = qweight q) \<and>
            (case qzeros q of None \<Rightarrow> qzeros q' = None
             | Some t \<Rightarrow> \<not> is_floating_point t \<longrightarrow> qzeros q' = Some t) \<and>
            (case g_idx q of None \<Rightarrow> g_idx q' = None
             | Some t \<Rightarrow> \<not> is_floating_point t \<longrightarrow> g_idx q' = Some t))
        (quant_modules model) (quant_modules model') \<and>
      list_all2 (\<lambda>t t'. (is_floating_point t \<longrightarrow> t' = tensor_to R Float16 t) \<and>
            (\<not> is_floating_point t \<longrightarrow> t' = t \<or> t' = tensor_to R Float16 t))
        (buffers model) (buffers model')) \<and>
   (\<forall>model'. model_to_float R model = Inr model' \<longrightarrow>
      list_all2 (\<lambda>q q'. dtype (scales q') = Float32 \<and> dtype (bias q') = Float32 \<and>
            (is_v1_model q \<longrightarrow> (\<exists>z. zeros q' = Some z \<and> dtype z = Float32)) \<and>
            (\<not> is_floating_point (qweight q) \<longrightarrow> qweight q' = qweight q) \<and>
            (case qzeros q of None \<Rightarrow> qzeros q' = None
             | Some t \<Rightarrow> \<not> is_floating_point t \<longrightarrow> qzeros q' = Some t) \<and>
            (case g_idx q of None \<Rightarrow> g_idx q' = None
             | Some t \<Rightarrow> \<not> is_floating_point t \<longrightarrow> g_idx q' = Some t))
        (quant_modules model) (quant_modules model') \<and>
      list_all2 (\<lambda>t t'. (is_floating_point t \<longrightarrow> t' = tensor_to R Float32 t) \<and>
            (\<not> is_floating_point t \<longrightarrow> t' = t \<or> t' = tensor_to R Float32 t))
        (buffers model) (buffers model')) \<and>
   (list_all (\<lambda>q. is_v1_model q \<longrightarrow> zeros q \<noteq> None) (quant_modules model) \<longrightarrow>
      (\<exists>h f. model_to_half R model = Inr h \<and> model_to_float R model = Inr f))"
  unfolding model_to_half_def model_to_float_def
  using convert_cast_tree(1)[of R Float16 model] convert_cast_tree(1)[of R Float32 model]
    convert_cast_succeeds(1)[of model R Float16] convert_cast_succeeds(1)[of model R Float32]
  by blast


text \<open>
  A model with a normalisation weight, a legacy module and a grouped module: the packed
  buffers keep their values and their 32-bit integer type through both conversions.
\<close>

theorem model_precision_conversion_witness:
  "\<exists>h f. model_to_half fixture_runtime fixture_quant_model = Inr h \<and>
      model_to_float fixture_runtime fixture_quant_model = Inr f \<and>
      map (\<lambda>q. dtype (scales q)) (quant_modules f) = [Float32, Float32] \<and>
      map (\<lambda>q. dtype (bias q)) (quant_modules f) = [Float32, Float32] \<and>
      map (\<lambda>q. map_option dtype (zeros q)) (quant_modules f) = [Some Float32, None] \<and>
      map qweight (quant_modules f) = map qweight (quant_modules fixture_quant_model) \<and>
      map qzeros (quant_modules f) = map qzeros (quant_modules fixture_quant_model) \<and>
      map g_idx (quant_modules f) = map g_idx (quant_modules fixture_quant_model) \<and>
      map dtype (buffers fixture_quant_model) =
        [Float32, Float16, Float16, Float16, Int32, Int32, Float16, Int32, Float16, Int32] \<and>
      map dtype (buffers h) =
        [Float16, Float16, Float16, Float16, Int32, Int32, Float16, Int32, Float16, Int32] \<and>
      map dtype (buffers f) =
        [Float32, Float32, Float32, Float32, Int32, Int32, Float32, Int32, Float32, Int32]"
proof -
  have wf: "list_all (\<lambda>q. is_v1_model q \<longrightarrow> zeros q \<noteq> None)
      (quant_modules fixture_quant_model)"
    by (simp add: fixture_quant_model_def fixture_quant_def)
  with model_precision_conversion[of fixture_runtime fixture_quant_model]
  obtain h f where h: "model_to_half fixture_runtime fixture_quant_model = Inr h"
    and f: "model_to_float fixture_runtime fixture_quant_model = Inr f"
    by blast
  from h have hv: "map dtype (buffers h) =
        [Float16, Float16, Float16, Float16, Int32, Int32, Float16, Int32, Float16, Int32]"
    by (auto simp: model_to_half_def fixture_quant_model_def fixture_quant_def
        fixture_tensor_def cast_floating_def is_floating_point_def tensor_to_def
        quant_buffers_def)
  from f have fv: "map (\<lambda>q. dtype (scales q)) (quant_modules f) = [Float32, Float32]"
      "map (\<lambda>q. dtype (bias q)) (quant_modules f) = [Float32, Float32]"
      "map (\<lambda>q. map_option dtype (zeros q)) (quant_modules f) = [Some Float32, None]"
      "map qweight (quant_modules f) = map qweight (quant_modules fixture_quant_model)"
      "map qzeros (quant_modules f) = map qzeros (quant_modules fixture_quant_model)"
      "map g_idx (quant_modules f) = map g_idx (quant_modules fixture_quant_model)"
      "map dtype (buffers f) =
        [Float32, Float32, Float32, Float32, Int32, Int32, Float32, Int32, Float32, Int32]"
    by (auto simp: model_to_float_def fixture_quant_model_def fixture_quant_def
        fixture_tensor_def cast_floating_def is_floating_point_def tensor_to_def
        quant_buffers_def)
  have mv: "map dtype (buffers fixture_quant_model) =
        [Float32, Float16, Float16, Float16, Int32, Int32, Float16, Int32, Float16, Int32]"
    by (simp add: fixture_quant_model_def fixture_quant_def fixture_tensor_def
        quant_buffers_def)
  from h f hv fv mv show ?thesis by (intro exI[of _ h] exI[of _ f] conjI)
qed

end
